theory Spec2Isabelle
  imports
    Main
    "HOL-Library.Char_ord"
    "HOL-Library.List_Lexorder"
    "HOL-Library.Word"
begin

section \<open>Messages and their canonical serialization (src/core/messages/messages.ts)\<close>

text \<open>
  A DSNP message is a flat JavaScript object whose values are strings and numbers. It is
  modelled as its list of own properties, in creation order: the order in which the object
  literal names them. Property names are field names of the message interfaces, so none is
  an integer index (which \<^verbatim>\<open>for ... in\<close> would visit out of insertion order).
\<close>

datatype js_prim = PStr string | PNum int

type_synonym DSNPMessage = "(string \<times> js_prim) list"

datatype DSNPType = GraphChange | Broadcast | Reply | Reaction | Profile

fun DSNPType_value :: "DSNPType \<Rightarrow> int" where
  "DSNPType_value GraphChange = 1"
| "DSNPType_value Broadcast = 2"
| "DSNPType_value Reply = 3"
| "DSNPType_value Reaction = 4"
| "DSNPType_value Profile = 5"

datatype DSNPGraphChangeType = Follow | Unfollow

fun DSNPGraphChangeType_value :: "DSNPGraphChangeType \<Rightarrow> int" where
  "DSNPGraphChangeType_value Follow = 1"
| "DSNPGraphChangeType_value Unfollow = 2"

definition createBroadcastMessage :: "string \<Rightarrow> string \<Rightarrow> string \<Rightarrow> DSNPMessage" where
  "createBroadcastMessage fromId url hash =
     [(''dsnpType'', PNum (DSNPType_value Broadcast)),
      (''contentHash'', PStr hash),
      (''fromId'', PStr fromId),
      (''url'', PStr url)]"

definition createReplyMessage :: "string \<Rightarrow> string \<Rightarrow> string \<Rightarrow> string \<Rightarrow> DSNPMessage" where
  "createReplyMessage fromId url hash inReplyTo =
     [(''dsnpType'', PNum (DSNPType_value Reply)),
      (''contentHash'', PStr hash),
      (''fromId'', PStr fromId),
      (''inReplyTo'', PStr inReplyTo),
      (''url'', PStr url)]"

definition createReactionMessage :: "string \<Rightarrow> string \<Rightarrow> string \<Rightarrow> DSNPMessage" where
  "createReactionMessage fromId emoji inReplyTo =
     [(''dsnpType'', PNum (DSNPType_value Reaction)),
      (''emoji'', PStr emoji),
      (''fromId'', PStr fromId),
      (''inReplyTo'', PStr inReplyTo)]"

definition createFollowGraphChangeMessage :: "string \<Rightarrow> string \<Rightarrow> DSNPMessage" where
  "createFollowGraphChangeMessage fromId followeeId =
     [(''fromId'', PStr fromId),
      (''dsnpType'', PNum (DSNPType_value GraphChange)),
      (''changeType'', PNum (DSNPGraphChangeType_value Follow)),
      (''objectId'', PStr followeeId)]"

definition createUnfollowGraphChangeMessage :: "string \<Rightarrow> string \<Rightarrow> DSNPMessage" where
  "createUnfollowGraphChangeMessage fromId followeeId =
     [(''fromId'', PStr fromId),
      (''dsnpType'', PNum (DSNPType_value GraphChange)),
      (''changeType'', PNum (DSNPGraphChangeType_value Unfollow)),
      (''objectId'', PStr followeeId)]"

definition createProfileMessage :: "string \<Rightarrow> string \<Rightarrow> string \<Rightarrow> DSNPMessage" where
  "createProfileMessage fromId url hash =
     [(''dsnpType'', PNum (DSNPType_value Profile)),
      (''contentHash'', PStr hash),
      (''fromId'', PStr fromId),
      (''url'', PStr url)]"

text \<open>
  Template-literal stringification: a string is itself, an integral number is printed in
  decimal, with a leading minus sign when negative.
\<close>

definition digit_char :: "nat \<Rightarrow> char" where
  "digit_char n = ''0123456789'' ! n"

function nat_to_decimal :: "nat \<Rightarrow> string" where
  "nat_to_decimal n =
     (if n < 10 then [digit_char n]
      else nat_to_decimal (n div 10) @ [digit_char (n mod 10)])"
  by pat_completeness auto
termination
  by (relation "measure id") auto

definition to_string :: "js_prim \<Rightarrow> string" where
  "to_string v =
     (case v of
        PStr s \<Rightarrow> s
      | PNum n \<Rightarrow> (if n < 0 then CHR ''-'' # nat_to_decimal (nat (- n)) else nat_to_decimal (nat n)))"

text \<open>
  Modelled from the spec: \<^verbatim>\<open>sortObject\<close> of core/utilities/json, which is not among the
  sources. The spec has the serializer "sort keys by lexicographic order of the key name";
  the properties keep their values and are re-inserted in that order. Strings are compared
  character by character by character code, a proper prefix coming first. The
  repository's serialization test expects this order of a broadcast's fields.
\<close>

definition sortObject :: "(string \<times> 'v) list \<Rightarrow> (string \<times> 'v) list" where
  "sortObject obj = sort_key fst obj"

text \<open>
  \<^verbatim>\<open>serialize\<close>: the loop over the keys of the sorted object appends the key and then
  the stringified value to the serialization built so far.
\<close>

definition serialize :: "DSNPMessage \<Rightarrow> string" where
  "serialize message =
     foldl (\<lambda>serialization (key, v). serialization @ key @ to_string v) []
       (sortObject message)"

section \<open>Announcement validation (the validators of src/unnamed/part_001)\<close>

text \<open>
  The validators take a value of unknown type. A JavaScript string is a sequence of
  UTF-16 code units; a number is modelled by an integer (the validators only compare
  numbers with enumeration constants); a record is the list of its properties.
\<close>

type_synonym code_unit = "16 word"

type_synonym jstring = "code_unit list"

datatype js_value =
    JUndefined
  | JNull
  | JBool bool
  | JNum int
  | JStr jstring
  | JObj "(string \<times> js_value) list"

datatype js_error = AnnouncementError string | TypeError

text \<open>Reading \<^verbatim>\<open>obj["name"]\<close>: a property that is not there reads as undefined.\<close>

definition get_prop :: "js_value \<Rightarrow> string \<Rightarrow> js_value" where
  "get_prop obj name =
     (case obj of
        JObj ps \<Rightarrow> (case map_of ps name of Some v \<Rightarrow> v | None \<Rightarrow> JUndefined)
      | _ \<Rightarrow> JUndefined)"

text \<open>
  Modelled from the spec: the type tests \<^verbatim>\<open>isRecord\<close>, \<^verbatim>\<open>isString\<close> and
  \<^verbatim>\<open>isNumber\<close> of core/utilities/validation, which is not among the sources ("the object
  is a structured record", "numeric timestamp").
\<close>

definition isRecord :: "js_value \<Rightarrow> bool" where
  "isRecord obj = (case obj of JObj _ \<Rightarrow> True | _ \<Rightarrow> False)"

definition isString :: "js_value \<Rightarrow> bool" where
  "isString obj = (case obj of JStr _ \<Rightarrow> True | _ \<Rightarrow> False)"

definition isNumber :: "js_value \<Rightarrow> bool" where
  "isNumber obj = (case obj of JNum _ \<Rightarrow> True | _ \<Rightarrow> False)"

text \<open>
  The identifier checks of core/identifiers are not among the sources and are taken as
  parameters, together with the conversion of a string to a number on which the loose
  comparison \<^verbatim>\<open>!=\<close> of a string with a number rests.
\<close>

record identifiers =
  isDSNPUserId :: "js_value \<Rightarrow> bool"
  isDSNPAnnouncementURI :: "js_value \<Rightarrow> bool"
  string_to_number :: "jstring \<Rightarrow> int option"

text \<open>
  \<^verbatim>\<open>v == n\<close> for a number n: numbers compare by value, a string and a boolean are
  converted to a number first, undefined and null equal no number, and a plain record
  converts to a string that is no number.
\<close>

definition loose_eq_number :: "identifiers \<Rightarrow> js_value \<Rightarrow> int \<Rightarrow> bool" where
  "loose_eq_number ids v n =
     (case v of
        JNum m \<Rightarrow> m = n
      | JStr s \<Rightarrow> string_to_number ids s = Some n
      | JBool b \<Rightarrow> (if b then 1 else 0) = n
      | _ \<Rightarrow> False)"

definition strict_eq_number :: "js_value \<Rightarrow> int \<Rightarrow> bool" where
  "strict_eq_number v n = (case v of JNum m \<Rightarrow> m = n | _ \<Rightarrow> False)"

datatype AnnouncementType =
  TombstoneType | GraphChangeType | BroadcastType | ReplyType | ReactionType | ProfileType

text \<open>
  Modelled from the spec: the values of the enumeration \<^verbatim>\<open>AnnouncementType\<close>
  (factories.ts is not among the sources). The five batched types keep the values of
  \<^verbatim>\<open>DSNPType\<close> in messages.ts; Tombstone takes the remaining value 0.
\<close>

fun AnnouncementType_value :: "AnnouncementType \<Rightarrow> int" where
  "AnnouncementType_value TombstoneType = 0"
| "AnnouncementType_value GraphChangeType = 1"
| "AnnouncementType_value BroadcastType = 2"
| "AnnouncementType_value ReplyType = 3"
| "AnnouncementType_value ReactionType = 4"
| "AnnouncementType_value ProfileType = 5"

text \<open>
  \<^verbatim>\<open>SIGNATURE_REGEX = /^0x[0-9a-f]{130}$/i\<close>: the whole string is 0x (or 0X, the
  flag i ignoring case) followed by exactly 130 hexadecimal digits of either case.
\<close>

definition is_hex_digit :: "code_unit \<Rightarrow> bool" where
  "is_hex_digit c =
     ((0x30 \<le> c \<and> c \<le> 0x39) \<or> (0x61 \<le> c \<and> c \<le> 0x66) \<or> (0x41 \<le> c \<and> c \<le> 0x46))"

definition matches_SIGNATURE_REGEX :: "jstring \<Rightarrow> bool" where
  "matches_SIGNATURE_REGEX s =
     (case s of
        zero # x # digits \<Rightarrow>
          zero = 0x30 \<and> (x = 0x78 \<or> x = 0x58) \<and>
          length digits = 130 \<and> list_all is_hex_digit digits
      | _ \<Rightarrow> False)"

text \<open>
  \<^verbatim>\<open>EMOJI_REGEX = /^[\u{2000}-\u{2BFF}\u{E000}-\u{FFFF}\u{1F000}-\u{FFFFF}]+$/u\<close>:
  with the flag u the pattern reads code points, a high surrogate followed by a low one
  being one code point; the string is one or more code points of the three ranges.
\<close>

definition is_high_surrogate :: "code_unit \<Rightarrow> bool" where
  "is_high_surrogate c = (0xD800 \<le> c \<and> c \<le> 0xDBFF)"

definition is_low_surrogate :: "code_unit \<Rightarrow> bool" where
  "is_low_surrogate c = (0xDC00 \<le> c \<and> c \<le> 0xDFFF)"

fun code_points :: "jstring \<Rightarrow> nat list" where
  "code_points [] = []"
| "code_points [c] = [unat c]"
| "code_points (hi # lo # rest) =
     (if is_high_surrogate hi \<and> is_low_surrogate lo
      then (0x10000 + (unat hi - 0xD800) * 0x400 + (unat lo - 0xDC00)) # code_points rest
      else unat hi # code_points (lo # rest))"

definition in_emoji_range :: "nat \<Rightarrow> bool" where
  "in_emoji_range cp =
     ((0x2000 \<le> cp \<and> cp \<le> 0x2BFF) \<or> (0xE000 \<le> cp \<and> cp \<le> 0xFFFF) \<or>
      (0x1F000 \<le> cp \<and> cp \<le> 0xFFFFF))"

definition matches_EMOJI_REGEX :: "jstring \<Rightarrow> bool" where
  "matches_EMOJI_REGEX s = (code_points s \<noteq> [] \<and> list_all in_emoji_range (code_points s))"

definition isValidEmoji :: "js_value \<Rightarrow> bool" where
  "isValidEmoji obj = (case obj of JStr s \<Rightarrow> matches_EMOJI_REGEX s | _ \<Rightarrow> False)"

definition isValidSignature :: "js_value \<Rightarrow> bool" where
  "isValidSignature obj = (case obj of JStr s \<Rightarrow> matches_SIGNATURE_REGEX s | _ \<Rightarrow> False)"

text \<open>
  The earlier revision of the module checks an emoji with a loop over the code units
  (\<^verbatim>\<open>charCodeAt\<close>) instead of a pattern; a string without code units passes it.
\<close>

definition charCode_in_emoji_range :: "code_unit \<Rightarrow> bool" where
  "charCode_in_emoji_range c =
     (let charCode = unat c in
      \<not> (\<not> (charCode \<ge> 8192 \<and> charCode \<le> 11263) \<and>
         \<not> (charCode \<ge> 57344 \<and> charCode \<le> 65535) \<and>
         \<not> (charCode \<ge> 126976 \<and> charCode \<le> 1114111)))"

fun isValidEmoji_loop :: "jstring \<Rightarrow> bool" where
  "isValidEmoji_loop [] = True"
| "isValidEmoji_loop (c # cs) = (if \<not> charCode_in_emoji_range c then False else isValidEmoji_loop cs)"

definition isValidEmoji_charCode :: "js_value \<Rightarrow> bool" where
  "isValidEmoji_charCode obj = (case obj of JStr s \<Rightarrow> isValidEmoji_loop s | _ \<Rightarrow> False)"

definition isGraphChangeType :: "js_value \<Rightarrow> bool" where
  "isGraphChangeType obj =
     (if \<not> isNumber obj then False
      else obj = JNum (DSNPGraphChangeType_value Follow) \<or>
           obj = JNum (DSNPGraphChangeType_value Unfollow))"

definition isAnnouncementType :: "js_value \<Rightarrow> bool" where
  "isAnnouncementType obj =
     (if \<not> isNumber obj then False
      else obj = JNum (AnnouncementType_value TombstoneType) \<or>
           obj = JNum (AnnouncementType_value GraphChangeType) \<or>
           obj = JNum (AnnouncementType_value BroadcastType) \<or>
           obj = JNum (AnnouncementType_value ReplyType) \<or>
           obj = JNum (AnnouncementType_value ReactionType) \<or>
           obj = JNum (AnnouncementType_value ProfileType))"

text \<open>The tombstone validator throws: each failed check raises its own message.\<close>

definition isTombstoneAnnouncement :: "identifiers \<Rightarrow> js_value \<Rightarrow> js_error + bool" where
  "isTombstoneAnnouncement ids obj =
     (if \<not> isRecord obj then Inl (AnnouncementError ''Announcement is not an object'')
      else if \<not> loose_eq_number ids (get_prop obj ''announcementType'') (AnnouncementType_value TombstoneType)
        then Inl (AnnouncementError ''Announcement is not tombstone'')
      else if \<not> isDSNPUserId ids (get_prop obj ''fromId'')
        then Inl (AnnouncementError ''Announcement has invalid fromId'')
      else if \<not> isNumber (get_prop obj ''createdAt'')
        then Inl (AnnouncementError ''Announcement has invalid createdAt'')
      else if \<not> isAnnouncementType (get_prop obj ''targetAnnouncementType'')
        then Inl (AnnouncementError ''Announcement has invalid target type'')
      else if \<not> (strict_eq_number (get_prop obj ''targetAnnouncementType'') (AnnouncementType_value BroadcastType) \<or>
                 strict_eq_number (get_prop obj ''targetAnnouncementType'') (AnnouncementType_value ReplyType) \<or>
                 strict_eq_number (get_prop obj ''targetAnnouncementType'') (AnnouncementType_value ReactionType))
        then Inl (AnnouncementError ''Announcement has invalid target type'')
      else if \<not> isValidSignature (get_prop obj ''targetSignature'')
        then Inl (AnnouncementError ''Announcement has invalid target signature'')
      else Inr True)"

text \<open>The other validators are type guards: a failed check returns false.\<close>

definition isGraphChangeAnnouncement :: "identifiers \<Rightarrow> js_value \<Rightarrow> bool" where
  "isGraphChangeAnnouncement ids obj =
     (if \<not> isRecord obj then False
      else if \<not> loose_eq_number ids (get_prop obj ''announcementType'') (AnnouncementType_value GraphChangeType) then False
      else if \<not> isDSNPUserId ids (get_prop obj ''fromId'') then False
      else if \<not> isGraphChangeType (get_prop obj ''changeType'') then False
      else if \<not> isDSNPUserId ids (get_prop obj ''objectId'') then False
      else if \<not> isNumber (get_prop obj ''createdAt'') then False
      else True)"

definition isBroadcastAnnouncement :: "identifiers \<Rightarrow> js_value \<Rightarrow> bool" where
  "isBroadcastAnnouncement ids obj =
     (if \<not> isRecord obj then False
      else if \<not> loose_eq_number ids (get_prop obj ''announcementType'') (AnnouncementType_value BroadcastType) then False
      else if \<not> isDSNPUserId ids (get_prop obj ''fromId'') then False
      else if \<not> isString (get_prop obj ''url'') then False
      else if \<not> isString (get_prop obj ''contentHash'') then False
      else True)"

definition isReplyAnnouncement :: "identifiers \<Rightarrow> js_value \<Rightarrow> bool" where
  "isReplyAnnouncement ids obj =
     (if \<not> isRecord obj then False
      else if \<not> loose_eq_number ids (get_prop obj ''announcementType'') (AnnouncementType_value ReplyType) then False
      else if \<not> isDSNPUserId ids (get_prop obj ''fromId'') then False
      else if \<not> isString (get_prop obj ''url'') then False
      else if \<not> isString (get_prop obj ''contentHash'') then False
      else if \<not> isDSNPAnnouncementURI ids (get_prop obj ''inReplyTo'') then False
      else True)"

definition isReactionAnnouncement :: "identifiers \<Rightarrow> js_value \<Rightarrow> bool" where
  "isReactionAnnouncement ids obj =
     (if \<not> isRecord obj then False
      else if \<not> loose_eq_number ids (get_prop obj ''announcementType'') (AnnouncementType_value ReactionType) then False
      else if \<not> isDSNPUserId ids (get_prop obj ''fromId'') then False
      else if \<not> isValidEmoji (get_prop obj ''emoji'') then False
      else if \<not> isDSNPAnnouncementURI ids (get_prop obj ''inReplyTo'') then False
      else True)"

definition isProfileAnnouncement :: "identifiers \<Rightarrow> js_value \<Rightarrow> bool" where
  "isProfileAnnouncement ids obj =
     (if \<not> isRecord obj then False
      else if \<not> loose_eq_number ids (get_prop obj ''announcementType'') (AnnouncementType_value ProfileType) then False
      else if \<not> isDSNPUserId ids (get_prop obj ''fromId'') then False
      else if \<not> isString (get_prop obj ''url'') then False
      else if \<not> isString (get_prop obj ''contentHash'') then False
      else True)"

text \<open>
  The table of validators, keyed by the discriminant; calling the entry of a key that is
  not in the table would be a TypeError.
\<close>

definition validators :: "identifiers \<Rightarrow> js_value \<Rightarrow> (js_value \<Rightarrow> js_error + bool) option" where
  "validators ids key =
     (if key = JNum (AnnouncementType_value TombstoneType) then Some (isTombstoneAnnouncement ids)
      else if key = JNum (AnnouncementType_value GraphChangeType) then Some (\<lambda>obj. Inr (isGraphChangeAnnouncement ids obj))
      else if key = JNum (AnnouncementType_value BroadcastType) then Some (\<lambda>obj. Inr (isBroadcastAnnouncement ids obj))
      else if key = JNum (AnnouncementType_value ReplyType) then Some (\<lambda>obj. Inr (isReplyAnnouncement ids obj))
      else if key = JNum (AnnouncementType_value ReactionType) then Some (\<lambda>obj. Inr (isReactionAnnouncement ids obj))
      else if key = JNum (AnnouncementType_value ProfileType) then Some (\<lambda>obj. Inr (isProfileAnnouncement ids obj))
      else None)"

definition isAnnouncement :: "identifiers \<Rightarrow> js_value \<Rightarrow> js_error + bool" where
  "isAnnouncement ids obj =
     (if \<not> isRecord obj then Inr False
      else if \<not> isAnnouncementType (get_prop obj ''announcementType'') then Inr False
      else (case validators ids (get_prop obj ''announcementType'') of
              Some validator \<Rightarrow> validator obj
            | None \<Rightarrow> Inl TypeError))"

definition isSignedAnnouncement :: "identifiers \<Rightarrow> js_value \<Rightarrow> js_error + bool" where
  "isSignedAnnouncement ids obj =
     (if \<not> isRecord obj then Inr False
      else if \<not> isValidSignature (get_prop obj ''signature'') then Inr False
      else isAnnouncement ids obj)"

text \<open>
  Sample values for evaluating the validators: identifier checks that accept every
  string, a conversion that reads a string of decimal digits as its number and no other
  string (JavaScript reads more strings as numbers: white space around, signs,
  fractions, exponents, other bases), a well-formed signature, and announcements built
  from them.
\<close>

definition decimal_digits_to_number :: "jstring \<Rightarrow> int option" where
  "decimal_digits_to_number s =
     (if s \<noteq> [] \<and> list_all (\<lambda>c. 0x30 \<le> c \<and> c \<le> 0x39) s
      then Some (int (foldl (\<lambda>n c. 10 * n + (unat c - 48)) 0 s))
      else None)"

definition sample_identifiers :: identifiers where
  "sample_identifiers =
     \<lparr>isDSNPUserId = isString, isDSNPAnnouncementURI = isString,
      string_to_number = decimal_digits_to_number\<rparr>"

definition sample_signature :: jstring where
  "sample_signature = [0x30, 0x78] @ replicate 130 0x61"

definition sample_id :: jstring where
  "sample_id = [0x30, 0x78, 0x31]"

definition sample_broadcast_fields :: "(string \<times> js_value) list" where
  "sample_broadcast_fields =
     [(''announcementType'', JNum 2), (''fromId'', JStr sample_id),
      (''url'', JStr sample_id), (''contentHash'', JStr sample_id)]"

definition sample_broadcast :: "js_value \<Rightarrow> js_value" where
  "sample_broadcast signature = JObj (sample_broadcast_fields @ [(''signature'', signature)])"

definition sample_tombstone :: "js_value \<Rightarrow> js_value \<Rightarrow> js_value \<Rightarrow> js_value \<Rightarrow> js_value" where
  "sample_tombstone fromId createdAt target signature =
     JObj [(''announcementType'', JNum 0), (''fromId'', fromId), (''createdAt'', createdAt),
           (''targetAnnouncementType'', target), (''targetSignature'', signature)]"

definition sample_reaction :: "jstring \<Rightarrow> js_value" where
  "sample_reaction emoji =
     JObj [(''announcementType'', JNum 4), (''fromId'', JStr sample_id),
           (''emoji'', JStr emoji), (''inReplyTo'', JStr sample_id),
           (''signature'', JStr sample_signature)]"

section \<open>The schema selector (parquetSchema of src/core/batch)\<close>

datatype parquet_type = INT32 | BYTE_ARRAY

type_synonym Schema = "(string \<times> parquet_type) list"

type_synonym BloomFilterOptions = "string list"

datatype batch_error =
    EmptyBatchError
  | MixedTypeBatchError
  | InvalidAnnouncementTypeError int
  | MissingStoreConfigError

text \<open>
  Modelled from the spec: \<^verbatim>\<open>getSchemaFor\<close> and \<^verbatim>\<open>getBloomFilterOptionsFor\<close> of
  parquetSchema.ts, which is not among the sources; only its test is. The spec has both
  "total functions over the five signable announcement types", any other discriminant
  failing with the unsupported-type error and never a default schema. The tables are the
  ones the test expects, each schema and each list of indexed columns in the test's order.
\<close>

definition getSchemaFor :: "int \<Rightarrow> batch_error + Schema" where
  "getSchemaFor dsnpType =
     (if dsnpType = DSNPType_value GraphChange then
        Inr [(''changeType'', INT32), (''dsnpType'', INT32), (''fromId'', BYTE_ARRAY),
             (''signature'', BYTE_ARRAY)]
      else if dsnpType = DSNPType_value Broadcast then
        Inr [(''dsnpType'', INT32), (''contentHash'', BYTE_ARRAY), (''fromId'', BYTE_ARRAY),
             (''url'', BYTE_ARRAY), (''signature'', BYTE_ARRAY)]
      else if dsnpType = DSNPType_value Reply then
        Inr [(''dsnpType'', INT32), (''contentHash'', BYTE_ARRAY), (''fromId'', BYTE_ARRAY),
             (''inReplyTo'', BYTE_ARRAY), (''url'', BYTE_ARRAY), (''signature'', BYTE_ARRAY)]
      else if dsnpType = DSNPType_value Reaction then
        Inr [(''dsnpType'', INT32), (''emoji'', BYTE_ARRAY), (''fromId'', BYTE_ARRAY),
             (''inReplyTo'', BYTE_ARRAY), (''signature'', BYTE_ARRAY)]
      else if dsnpType = DSNPType_value Profile then
        Inr [(''dsnpType'', INT32), (''fromId'', BYTE_ARRAY), (''url'', BYTE_ARRAY),
             (''signature'', BYTE_ARRAY)]
      else Inl (InvalidAnnouncementTypeError dsnpType))"

definition getBloomFilterOptionsFor :: "int \<Rightarrow> batch_error + BloomFilterOptions" where
  "getBloomFilterOptionsFor dsnpType =
     (if dsnpType = DSNPType_value GraphChange then Inr [''fromId'']
      else if dsnpType = DSNPType_value Broadcast then Inr [''fromId'']
      else if dsnpType = DSNPType_value Reply then Inr [''fromId'', ''inReplyTo'']
      else if dsnpType = DSNPType_value Reaction then Inr [''emoji'', ''fromId'', ''inReplyTo'']
      else if dsnpType = DSNPType_value Profile then Inr [''fromId'']
      else Inl (InvalidAnnouncementTypeError dsnpType))"

section \<open>Batch files (src/unnamed/part_003)\<close>

text \<open>
  A signed announcement, as the batch code reads it: its type and its other properties,
  the signature among them.
\<close>

record SignedAnnouncement =
  dsnpType :: DSNPType
  properties :: "(string \<times> js_prim) list"

text \<open>
  The announcements come as an iterable, synchronous or not
  (\<^verbatim>\<open>AsyncOrSyncIterable\<close>). Three kinds differ in what a second loop sees. An array
  is re-iterable: every loop over it asks for a fresh iterator and starts at the first
  element. A generator object is its own iterator and hands out each element once;
  leaving a \<^verbatim>\<open>for await\<close> loop over it by \<^verbatim>\<open>break\<close> calls its \<^verbatim>\<open>return\<close> method,
  which finishes it, so that a later loop over it gets nothing. An iterator without a
  \<^verbatim>\<open>return\<close> method (what \<^verbatim>\<open>values()\<close> of an array, a Map or a Set gives) is its
  own iterator too, but \<^verbatim>\<open>break\<close> leaves it where it stands, and a later loop over it
  goes on with the elements not yet handed out.
\<close>

datatype 'a iterable = Replayable "'a list" | OneShot "'a list" | Resumable "'a list"

text \<open>What one complete loop over the iterable yields.\<close>

fun elements :: "'a iterable \<Rightarrow> 'a list" where
  "elements (Replayable xs) = xs"
| "elements (OneShot xs) = xs"
| "elements (Resumable xs) = xs"

text \<open>
  The loop that reads the first element and breaks: the element, if there is one, and
  the iterable as the loop leaves it.
\<close>

fun first_then_break :: "'a iterable \<Rightarrow> 'a option \<times> 'a iterable" where
  "first_then_break (Replayable []) = (None, Replayable [])"
| "first_then_break (Replayable (x # xs)) = (Some x, Replayable (x # xs))"
| "first_then_break (OneShot []) = (None, OneShot [])"
| "first_then_break (OneShot (x # xs)) = (Some x, OneShot [])"
| "first_then_break (Resumable []) = (None, Resumable [])"
| "first_then_break (Resumable (x # xs)) = (Some x, Resumable xs)"

text \<open>
  A chunk is a byte array. The destination sink keeps the chunks it is given, in order;
  \<^verbatim>\<open>end\<close> may carry a last chunk. The first argument of \<^verbatim>\<open>end\<close> is a callback (or
  absent), a plain \<^verbatim>\<open>Uint8Array\<close>, or a chunk of another kind (a string, or a Buffer,
  whose constructor is not \<^verbatim>\<open>Uint8Array\<close>).
\<close>

type_synonym chunk = "8 word list"

datatype end_arg = EndCallback | EndUint8Array chunk | EndOther chunk

record WriteStream =
  written :: "chunk list"
  ended :: bool

definition WriteStream_write :: "chunk \<Rightarrow> WriteStream \<Rightarrow> WriteStream" where
  "WriteStream_write c ws = ws\<lparr>written := written ws @ [c]\<rparr>"

definition WriteStream_end :: "end_arg \<Rightarrow> WriteStream \<Rightarrow> WriteStream" where
  "WriteStream_end arg ws =
     ws\<lparr>written := written ws @
           (case arg of EndCallback \<Rightarrow> [] | EndUint8Array c \<Rightarrow> [c] | EndOther c \<Rightarrow> [c]),
        ended := True\<rparr>"

text \<open>A stream object: its two methods, acting on the state behind it.\<close>

record 's stream_ops =
  stream_write :: "chunk \<Rightarrow> 's \<Rightarrow> 's"
  stream_end :: "end_arg \<Rightarrow> 's \<Rightarrow> 's"

definition plain_stream :: "WriteStream stream_ops" where
  "plain_stream = \<lparr>stream_write = WriteStream_write, stream_end = WriteStream_end\<rparr>"

text \<open>
  The hash accumulator of js-sha3: \<^verbatim>\<open>create\<close> starts it, \<^verbatim>\<open>update\<close> feeds it bytes,
  and \<^verbatim>\<open>hex\<close> is the digest of all the bytes fed, in order. The digest function itself
  is a parameter.
\<close>

type_synonym hashGenerator = "8 word list"

definition hashGenerator_create :: hashGenerator where
  "hashGenerator_create = []"

definition hashGenerator_update :: "hashGenerator \<Rightarrow> chunk \<Rightarrow> hashGenerator" where
  "hashGenerator_update h c = h @ c"

text \<open>
  \<^verbatim>\<open>hashingWriteStream\<close>: \<^verbatim>\<open>write\<close> feeds the chunk to the hash and passes it on;
  \<^verbatim>\<open>end\<close> feeds its first argument to the hash when that is a plain \<^verbatim>\<open>Uint8Array\<close>,
  and passes its arguments on.
\<close>

definition hashingWriteStream :: "(hashGenerator \<times> WriteStream) stream_ops" where
  "hashingWriteStream =
     \<lparr>stream_write = (\<lambda>c (h, ws). (hashGenerator_update h c, WriteStream_write c ws)),
      stream_end = (\<lambda>arg (h, ws).
        ((case arg of EndUint8Array c \<Rightarrow> hashGenerator_update h c | _ \<Rightarrow> h), WriteStream_end arg ws))\<rparr>"

text \<open>
  The columnar encoder (ParquetWriter of the parquetjs library) is outside the
  repository. It is a parameter: what it writes to the stream when it is opened, when a
  row is appended and when it is closed is left open, as is its state. It hands every
  chunk to the stream's \<^verbatim>\<open>write\<close>, and on closing calls \<^verbatim>\<open>end\<close> with a callback only.
  Its calls are taken to succeed: a failure of the library would be passed on unchanged
  and is none of the batch errors.
\<close>

record 'w ParquetWriter =
  openStream :: "Schema \<Rightarrow> BloomFilterOptions option \<Rightarrow> 'w \<times> chunk list"
  appendRow :: "'w \<Rightarrow> SignedAnnouncement \<Rightarrow> 'w \<times> chunk list"
  close :: "'w \<Rightarrow> chunk list"

definition write_all :: "'s stream_ops \<Rightarrow> chunk list \<Rightarrow> 's \<Rightarrow> 's" where
  "write_all ops chunks s = foldl (\<lambda>s c. stream_write ops c s) s chunks"

text \<open>
  The loop of \<^verbatim>\<open>writeBatch\<close>: the first announcement fixes the type, an announcement of
  another type throws, every other one is appended.
\<close>

fun writeBatch_loop ::
  "'w ParquetWriter \<Rightarrow> 's stream_ops \<Rightarrow> SignedAnnouncement list \<Rightarrow> DSNPType option \<Rightarrow> 'w \<Rightarrow> 's
    \<Rightarrow> (batch_error + DSNPType option \<times> 'w) \<times> 's" where
  "writeBatch_loop pq ops [] firstDsnpType w s = (Inr (firstDsnpType, w), s)"
| "writeBatch_loop pq ops (announcement # rest) firstDsnpType w s =
     (let firstDsnpType' =
            (if firstDsnpType = None then Some (dsnpType announcement) else firstDsnpType)
      in if Some (dsnpType announcement) \<noteq> firstDsnpType' then (Inl MixedTypeBatchError, s)
         else (case appendRow pq w announcement of
                 (w', chunks) \<Rightarrow> writeBatch_loop pq ops rest firstDsnpType' w' (write_all ops chunks s)))"

definition writeBatch ::
  "'w ParquetWriter \<Rightarrow> 's stream_ops \<Rightarrow> Schema \<Rightarrow> SignedAnnouncement iterable
    \<Rightarrow> BloomFilterOptions option \<Rightarrow> 's \<Rightarrow> (batch_error + unit) \<times> 's" where
  "writeBatch pq ops schema announcements opts s =
     (case openStream pq schema opts of
        (w, chunks) \<Rightarrow>
          (case writeBatch_loop pq ops (elements announcements) None w (write_all ops chunks s) of
             (Inl e, s') \<Rightarrow> (Inl e, s')
           | (Inr (firstDsnpType, w'), s') \<Rightarrow>
               if firstDsnpType = None then (Inl EmptyBatchError, s')
               else (Inr (), stream_end ops EndCallback (write_all ops (close pq w') s'))))"

text \<open>
  Modelled from the spec: the content store, whose code is not among the sources:
  "putStream(key, writerCallback) -> URI", the callback receiving a sink with write and
  end. The store keeps, per key, the chunks the sink was given. When the callback fails
  the failure is passed on and nothing becomes retrievable at the key.
\<close>

record Store =
  contents :: "string \<Rightarrow> chunk list option"
  url_of :: "string \<Rightarrow> string"

definition putStream ::
  "Store \<Rightarrow> string \<Rightarrow> (WriteStream \<Rightarrow> (batch_error + 'r) \<times> WriteStream)
    \<Rightarrow> (batch_error + string \<times> 'r) \<times> Store" where
  "putStream store targetPath doWriteToStream =
     (case doWriteToStream \<lparr>written = [], ended = False\<rparr> of
        (Inl e, ws) \<Rightarrow> (Inl e, store)
      | (Inr r, ws) \<Rightarrow>
          (Inr (url_of store targetPath, r),
           store\<lparr>contents := (contents store)(targetPath \<mapsto> written ws)\<rparr>))"

definition requireGetStore :: "Store option \<Rightarrow> batch_error + Store" where
  "requireGetStore opts = (case opts of None \<Rightarrow> Inl MissingStoreConfigError | Some store \<Rightarrow> Inr store)"

record BatchFileData =
  url :: string
  hash :: string

text \<open>
  \<^verbatim>\<open>createFile\<close>. The configured store is the option \<open>opts\<close>; the result comes with the
  store as the call leaves it.
\<close>

definition createFile ::
  "'w ParquetWriter \<Rightarrow> (8 word list \<Rightarrow> string) \<Rightarrow> string \<Rightarrow> SignedAnnouncement iterable
    \<Rightarrow> Store option \<Rightarrow> (batch_error + BatchFileData) \<times> Store option" where
  "createFile pq keccak256_hex targetPath announcements opts =
     (case first_then_break announcements of
        (None, _) \<Rightarrow> (Inl EmptyBatchError, opts)
      | (Some announcement, announcements') \<Rightarrow>
          (case getSchemaFor (DSNPType_value (dsnpType announcement)) of
             Inl e \<Rightarrow> (Inl e, opts)
           | Inr schema \<Rightarrow>
               (case getBloomFilterOptionsFor (DSNPType_value (dsnpType announcement)) of
                  Inl e \<Rightarrow> (Inl e, opts)
                | Inr bloomFilterOptions \<Rightarrow>
                    (case requireGetStore opts of
                       Inl e \<Rightarrow> (Inl e, opts)
                     | Inr store \<Rightarrow>
                         (case putStream store targetPath
                                 (\<lambda>writeStream.
                                    case writeBatch pq hashingWriteStream schema announcements'
                                           (Some bloomFilterOptions) (hashGenerator_create, writeStream) of
                                      (Inl e, (h, ws)) \<Rightarrow> (Inl e, ws)
                                    | (Inr _, (h, ws)) \<Rightarrow> (Inr h, ws)) of
                            (Inl e, store') \<Rightarrow> (Inl e, Some store')
                          | (Inr (u, hashGenerator), store') \<Rightarrow>
                              (Inr \<lparr>url = u, hash = keccak256_hex hashGenerator\<rparr>, Some store'))))))"

text \<open>
  Reading. The reader (ParquetReader of the same library) gives a cursor over the rows
  of the file and, per column, the bloom-filter blocks of the row groups. \<^verbatim>\<open>readFile\<close>
  hands every record of the cursor to the callback, in the cursor's order.
\<close>

record 'v SplitBlockBloomFilter =
  check :: "'v \<Rightarrow> bool"

record 'v BloomFilterData =
  sbbf :: "'v SplitBlockBloomFilter"
  columnName :: string
  RowGroupIndex :: nat

record ('row, 'v) ParquetReader =
  row_groups :: "'row list list"
  getBloomFilters :: "string \<Rightarrow> 'v BloomFilterData list option"

definition readFile :: "('row, 'v) ParquetReader \<Rightarrow> ('row \<Rightarrow> 'st \<Rightarrow> 'st) \<Rightarrow> 'st \<Rightarrow> 'st" where
  "readFile reader doReadRow st = foldl (\<lambda>st record. doReadRow record st) st (concat (row_groups reader))"

text \<open>
  \<^verbatim>\<open>includes\<close> (here \<open>includes_item\<close>): some block of the column answers true; a
  column without blocks has the empty list of them.
\<close>

definition includes_item :: "('row, 'v) ParquetReader \<Rightarrow> string \<Rightarrow> 'v \<Rightarrow> bool" where
  "includes_item reader column item =
     list_ex (\<lambda>data. check (sbbf data) item)
       (case getBloomFilters reader column of None \<Rightarrow> [] | Some blocks \<Rightarrow> blocks)"

text \<open>
  Modelled from the spec: the bloom filters, which the parquetjs library (outside the
  repository) writes and reads back: "one bloom-filter index block per column named in
  the type's BloomFilterSpec", with false positives possible and false negatives not. A
  filter is a bloom filter: a value stands for some bit positions (the hashing, a
  parameter), inserting a value sets its bits, and the check asks whether all the bits
  of a value are set. The encoder keeps one filter per row group and indexed column and
  inserts the column's value of every row of the group; the reader hands these filters
  back, one block per row group, for an indexed column and nothing for another.
\<close>

definition sbbf_insert :: "('v \<Rightarrow> nat list) \<Rightarrow> 'v \<Rightarrow> nat list \<Rightarrow> nat list" where
  "sbbf_insert positions v bits = positions v @ bits"

definition sbbf_check :: "('v \<Rightarrow> nat list) \<Rightarrow> nat list \<Rightarrow> 'v \<Rightarrow> bool" where
  "sbbf_check positions bits v = list_all (\<lambda>p. p \<in> set bits) (positions v)"

definition column_values :: "string \<Rightarrow> (string \<Rightarrow> 'v option) list \<Rightarrow> 'v list" where
  "column_values column rows = List.map_filter (\<lambda>row. row column) rows"

definition write_block ::
  "('v \<Rightarrow> nat list) \<Rightarrow> string \<Rightarrow> (string \<Rightarrow> 'v option) list \<Rightarrow> nat list" where
  "write_block positions column rows =
     foldl (\<lambda>bits v. sbbf_insert positions v bits) [] (column_values column rows)"

definition written_file ::
  "('v \<Rightarrow> nat list) \<Rightarrow> BloomFilterOptions \<Rightarrow> (string \<Rightarrow> 'v option) list list
    \<Rightarrow> (string \<Rightarrow> 'v option, 'v) ParquetReader" where
  "written_file positions bloomFilters groups =
     \<lparr>row_groups = groups,
      getBloomFilters = (\<lambda>column.
        if column \<in> set bloomFilters then
          Some (map (\<lambda>(g, rows).
                       \<lparr>sbbf = \<lparr>check = sbbf_check positions (write_block positions column rows)\<rparr>,
                        columnName = column, RowGroupIndex = g\<rparr>)
                  (enumerate 0 groups))
        else None)\<rparr>"

text \<open>
  What the encoder writes for a list of rows appended one after the other, and all that
  a batch of these rows puts into the stream: the chunks of opening, of the rows in
  their order, and of closing.
\<close>

fun rows_chunks :: "'w ParquetWriter \<Rightarrow> 'w \<Rightarrow> SignedAnnouncement list \<Rightarrow> 'w \<times> chunk list" where
  "rows_chunks pq w [] = (w, [])"
| "rows_chunks pq w (a # rest) =
     (case appendRow pq w a of
        (w', chunks) \<Rightarrow> (case rows_chunks pq w' rest of (w'', chunks') \<Rightarrow> (w'', chunks @ chunks')))"

definition batch_chunks :: "'w ParquetWriter \<Rightarrow> Schema \<Rightarrow> BloomFilterOptions option \<Rightarrow> SignedAnnouncement list \<Rightarrow> chunk list" where
  "batch_chunks pq schema bloom xs =
     (case openStream pq schema bloom of
        (w, header) \<Rightarrow> (case rows_chunks pq w xs of (w', body) \<Rightarrow> header @ body @ close pq w'))"

text \<open>
  Sample values for evaluating the batch code: an encoder that writes a four-byte
  header, one byte per row and a footer with the row count; a stand-in for the digest;
  an empty store; an announcement of a given type; and, for the probe, a hashing of
  numbers to two bit positions each and the rows of two row groups.
\<close>

definition sample_writer :: "nat ParquetWriter" where
  "sample_writer =
     \<lparr>openStream = (\<lambda>schema opts. (0, [[0x50, 0x41, 0x52, 0x31]])),
      appendRow = (\<lambda>n a. (Suc n, [[of_nat (nat (DSNPType_value (dsnpType a)))]])),
      close = (\<lambda>n. [[of_nat n], [0x50, 0x41, 0x52, 0x31]])\<rparr>"

definition sample_digest :: "8 word list \<Rightarrow> string" where
  "sample_digest bytes = nat_to_decimal (length bytes)"

definition sample_store :: Store where
  "sample_store = \<lparr>contents = (\<lambda>key. None), url_of = (\<lambda>targetPath. ''http://fakestore.org/'' @ targetPath)\<rparr>"

definition sample_signed :: "DSNPType \<Rightarrow> SignedAnnouncement" where
  "sample_signed t = \<lparr>dsnpType = t, properties = [(''fromId'', PStr ''1''), (''signature'', PStr ''0x00'')]\<rparr>"

definition sample_positions :: "nat \<Rightarrow> nat list" where
  "sample_positions v = [v mod 4, 4 + v mod 3]"

definition sample_groups :: "(string \<Rightarrow> nat option) list list" where
  "sample_groups = [[[''fromId'' \<mapsto> 1]], [[''fromId'' \<mapsto> 2], [''fromId'' \<mapsto> 3]]]"

section \<open>Properties of the serializer\<close>

lemma foldl_append_concat:
  "foldl (\<lambda>acc (k, v). acc @ k @ f v) acc0 kvs = acc0 @ concat (map (\<lambda>(k, v). k @ f v) kvs)"
  by (induction kvs arbitrary: acc0) auto

lemma serialize_concat:
  "serialize message = concat (map (\<lambda>(key, v). key @ to_string v) (sortObject message))"
  by (simp add: serialize_def foldl_append_concat)

lemma sortObject_sorted: "sorted (map fst (sortObject obj))"
  by (simp add: sortObject_def)

lemma sortObject_createBroadcastMessage:
  "sortObject (createBroadcastMessage f u h) =
     [(''contentHash'', PStr h), (''dsnpType'', PNum 2),
      (''fromId'', PStr f), (''url'', PStr u)]"
  by (simp add: sortObject_def createBroadcastMessage_def)

lemma to_string_two: "to_string (PNum 2) = ''2''"
  by (simp add: to_string_def digit_char_def)

text \<open>The value the serialization test of the repository expects.\<close>

lemma serialize_test_value:
  "serialize (createBroadcastMessage ''1'' ''https://dsnp.org'' ''0x12345'') =
     ''contentHash0x12345dsnpType2fromId1urlhttps://dsnp.org''"
  by (simp add: serialize_concat sortObject_createBroadcastMessage to_string_def digit_char_def)

text \<open>
  Claim C1. For every broadcast message built by \<^verbatim>\<open>createBroadcastMessage\<close>, serialize
  returns the field names, each followed at once by its stringified value, in
  lexicographic order of the names and with nothing between them; for the arguments
  "1", "https://example.org/a" and "0x12345" this is the literal string
  contentHash0x12345dsnpType2fromId1urlhttps://example.org/a. The serialization is a
  function of the message alone (the visiting order is the sorted key order and the
  result is the concatenation over it), so equal messages serialize equally.
\<close>

theorem serialize_createBroadcastMessage:
  "serialize (createBroadcastMessage f u h) =
     ''contentHash'' @ h @ ''dsnpType'' @ ''2'' @ ''fromId'' @ f @ ''url'' @ u
   \<and> serialize (createBroadcastMessage ''1'' ''https://example.org/a'' ''0x12345'') =
     ''contentHash0x12345dsnpType2fromId1urlhttps://example.org/a''
   \<and> sorted (map fst (sortObject (createBroadcastMessage f u h)))
   \<and> map fst (sortObject (createBroadcastMessage f u h)) =
     [''contentHash'', ''dsnpType'', ''fromId'', ''url'']
   \<and> serialize message =
     concat (map (\<lambda>(key, v). key @ to_string v) (sortObject message))"
proof -
  have general: "serialize (createBroadcastMessage f' u' h') =
      ''contentHash'' @ h' @ ''dsnpType'' @ ''2'' @ ''fromId'' @ f' @ ''url'' @ u'" for f' u' h'
    by (simp add: serialize_concat sortObject_createBroadcastMessage to_string_two)
      (simp add: to_string_def)
  have literal: "serialize (createBroadcastMessage ''1'' ''https://example.org/a'' ''0x12345'') =
      ''contentHash0x12345dsnpType2fromId1urlhttps://example.org/a''"
    by (simp add: general)
  show ?thesis
    using general literal
    by (simp add: sortObject_sorted serialize_concat sortObject_createBroadcastMessage)
qed

section \<open>Properties of the validators\<close>

lemma matches_SIGNATURE_REGEX_iff:
  "matches_SIGNATURE_REGEX s =
     (length s = 132 \<and> s ! 0 = 0x30 \<and> (s ! 1 = 0x78 \<or> s ! 1 = 0x58) \<and>
      list_all is_hex_digit (drop 2 s))"
  by (cases s; cases "tl s") (auto simp: matches_SIGNATURE_REGEX_def)

lemma isValidSignature_sample: "isValidSignature (JStr sample_signature)"
  by (simp add: isValidSignature_def matches_SIGNATURE_REGEX_def is_hex_digit_def sample_signature_def list_all_iff)

lemma isValidSignature_sample_id: "\<not> isValidSignature (JStr sample_id)"
  by (simp add: isValidSignature_def matches_SIGNATURE_REGEX_def is_hex_digit_def sample_id_def)

lemma isAnnouncement_sample_broadcast:
  "isAnnouncement sample_identifiers (sample_broadcast sig) = Inr True"
  by (simp add: isAnnouncement_def validators_def isBroadcastAnnouncement_def
      isAnnouncementType_def loose_eq_number_def isRecord_def isString_def isNumber_def get_prop_def
      sample_identifiers_def sample_id_def sample_broadcast_fields_def sample_broadcast_def)

text \<open>
  Claim C8. isSignedAnnouncement returns true exactly when the object is a record, its
  signature field is a string matching \<^verbatim>\<open>^0x[0-9a-f]{130}$\<close> without regard to case
  (132 code units: 0, x or X, then 130 hexadecimal digits), and isAnnouncement accepts the
  object; when the signature is missing or ill-formed it returns false whatever the rest
  of the object holds.
\<close>

theorem isSignedAnnouncement_true_iff:
  "(isSignedAnnouncement ids obj = Inr True) =
     (isRecord obj \<and> isValidSignature (get_prop obj ''signature'') \<and>
      isAnnouncement ids obj = Inr True)
   \<and> isValidSignature v =
     (\<exists>s. v = JStr s \<and> length s = 132 \<and> s ! 0 = 0x30 \<and> (s ! 1 = 0x78 \<or> s ! 1 = 0x58) \<and>
          list_all is_hex_digit (drop 2 s))
   \<and> (\<not> isValidSignature (get_prop obj ''signature'') \<longrightarrow>
        isSignedAnnouncement ids obj = Inr False)"
proof (intro conjI)
  show "(isSignedAnnouncement ids obj = Inr True) =
     (isRecord obj \<and> isValidSignature (get_prop obj ''signature'') \<and>
      isAnnouncement ids obj = Inr True)"
    by (simp add: isSignedAnnouncement_def)
  show "isValidSignature v =
     (\<exists>s. v = JStr s \<and> length s = 132 \<and> s ! 0 = 0x30 \<and> (s ! 1 = 0x78 \<or> s ! 1 = 0x58) \<and>
          list_all is_hex_digit (drop 2 s))"
    by (cases v) (simp_all add: isValidSignature_def matches_SIGNATURE_REGEX_iff)
  show "\<not> isValidSignature (get_prop obj ''signature'') \<longrightarrow>
        isSignedAnnouncement ids obj = Inr False"
    by (simp add: isSignedAnnouncement_def)
qed

theorem isSignedAnnouncement_true_iff_witness:
  "isSignedAnnouncement sample_identifiers (sample_broadcast (JStr sample_signature)) = Inr True
   \<and> \<not> isValidSignature (get_prop (sample_broadcast (JStr sample_id)) ''signature'')
   \<and> isSignedAnnouncement sample_identifiers (sample_broadcast (JStr sample_id)) = Inr False
   \<and> \<not> isValidSignature (get_prop (JObj sample_broadcast_fields) ''signature'')
   \<and> isSignedAnnouncement sample_identifiers (JObj sample_broadcast_fields) = Inr False"
proof -
  have good: "get_prop (sample_broadcast (JStr sample_signature)) ''signature'' = JStr sample_signature"
    by (simp add: get_prop_def sample_broadcast_def sample_broadcast_fields_def)
  have bad: "get_prop (sample_broadcast (JStr sample_id)) ''signature'' = JStr sample_id"
    by (simp add: get_prop_def sample_broadcast_def sample_broadcast_fields_def)
  have missing: "get_prop (JObj sample_broadcast_fields) ''signature'' = JUndefined"
    by (simp add: get_prop_def sample_broadcast_fields_def)
  have is_rec: "isRecord (sample_broadcast sig)" for sig
    by (simp add: isRecord_def sample_broadcast_def)
  have undef: "\<not> isValidSignature JUndefined"
    by (simp add: isValidSignature_def)
  note accepted = isSignedAnnouncement_true_iff
    [of sample_identifiers "sample_broadcast (JStr sample_signature)" JNull, THEN conjunct1]
  note rejected = isSignedAnnouncement_true_iff
    [of sample_identifiers "sample_broadcast (JStr sample_id)" JNull, THEN conjunct2, THEN conjunct2]
  note rejected_missing = isSignedAnnouncement_true_iff
    [of sample_identifiers "JObj sample_broadcast_fields" JNull, THEN conjunct2, THEN conjunct2]
  have "isSignedAnnouncement sample_identifiers (sample_broadcast (JStr sample_signature)) = Inr True"
    using accepted by (simp add: good is_rec isValidSignature_sample isAnnouncement_sample_broadcast)
  moreover have "isSignedAnnouncement sample_identifiers (sample_broadcast (JStr sample_id)) = Inr False"
    using rejected by (simp add: bad isValidSignature_sample_id)
  moreover have "isSignedAnnouncement sample_identifiers (JObj sample_broadcast_fields) = Inr False"
    using rejected_missing by (simp add: missing undef)
  ultimately show ?thesis
    by (simp add: bad missing undef isValidSignature_sample_id)
qed

text \<open>
  The checks of the validators, one by one, and the dispatch of isAnnouncement.
\<close>

lemma AnnouncementType_UNIV:
  "(UNIV :: AnnouncementType set) =
     {TombstoneType, GraphChangeType, BroadcastType, ReplyType, ReactionType, ProfileType}"
  using AnnouncementType.exhaust by auto

lemma target_type_checks:
  "(isAnnouncementType v \<and>
      (strict_eq_number v (AnnouncementType_value BroadcastType) \<or>
       strict_eq_number v (AnnouncementType_value ReplyType) \<or>
       strict_eq_number v (AnnouncementType_value ReactionType))) =
   (v \<in> JNum ` AnnouncementType_value ` {BroadcastType, ReplyType, ReactionType})"
  by (cases v) (auto simp: isAnnouncementType_def strict_eq_number_def isNumber_def)

lemma isAnnouncementType_enumerated:
  "isAnnouncementType v = (v \<in> JNum ` AnnouncementType_value ` UNIV)"
  unfolding AnnouncementType_UNIV by (cases v) (auto simp: isAnnouncementType_def isNumber_def)

lemma isGraphChangeType_enumerated:
  "isGraphChangeType v = (v \<in> JNum ` DSNPGraphChangeType_value ` {Follow, Unfollow})"
  by (cases v) (auto simp: isGraphChangeType_def isNumber_def)

lemma isTombstoneAnnouncement_not_object:
  "(\<not> isRecord obj \<longrightarrow>
      isTombstoneAnnouncement ids obj = Inl (AnnouncementError ''Announcement is not an object''))"
  unfolding target_type_checks [symmetric] by (simp add: isTombstoneAnnouncement_def)

lemma isTombstoneAnnouncement_not_tombstone:
  "(isRecord obj \<and>
      \<not> loose_eq_number ids (get_prop obj ''announcementType'') (AnnouncementType_value TombstoneType) \<longrightarrow>
      isTombstoneAnnouncement ids obj = Inl (AnnouncementError ''Announcement is not tombstone''))"
  unfolding target_type_checks [symmetric] by (simp add: isTombstoneAnnouncement_def)

lemma isTombstoneAnnouncement_fromId:
  "(isRecord obj \<and>
      loose_eq_number ids (get_prop obj ''announcementType'') (AnnouncementType_value TombstoneType) \<and>
      \<not> isDSNPUserId ids (get_prop obj ''fromId'') \<longrightarrow>
      isTombstoneAnnouncement ids obj = Inl (AnnouncementError ''Announcement has invalid fromId''))"
  unfolding target_type_checks [symmetric] by (simp add: isTombstoneAnnouncement_def)

lemma isTombstoneAnnouncement_createdAt:
  "(isRecord obj \<and>
      loose_eq_number ids (get_prop obj ''announcementType'') (AnnouncementType_value TombstoneType) \<and>
      isDSNPUserId ids (get_prop obj ''fromId'') \<and>
      \<not> isNumber (get_prop obj ''createdAt'') \<longrightarrow>
      isTombstoneAnnouncement ids obj = Inl (AnnouncementError ''Announcement has invalid createdAt''))"
  unfolding target_type_checks [symmetric] by (simp add: isTombstoneAnnouncement_def)

lemma isTombstoneAnnouncement_target_type:
  "(isRecord obj \<and>
      loose_eq_number ids (get_prop obj ''announcementType'') (AnnouncementType_value TombstoneType) \<and>
      isDSNPUserId ids (get_prop obj ''fromId'') \<and>
      isNumber (get_prop obj ''createdAt'') \<and>
      get_prop obj ''targetAnnouncementType'' \<notin>
        JNum ` AnnouncementType_value ` {BroadcastType, ReplyType, ReactionType} \<longrightarrow>
      isTombstoneAnnouncement ids obj = Inl (AnnouncementError ''Announcement has invalid target type''))"
  unfolding target_type_checks [symmetric] by (simp add: isTombstoneAnnouncement_def)

lemma isTombstoneAnnouncement_target_signature:
  "(isRecord obj \<and>
      loose_eq_number ids (get_prop obj ''announcementType'') (AnnouncementType_value TombstoneType) \<and>
      isDSNPUserId ids (get_prop obj ''fromId'') \<and>
      isNumber (get_prop obj ''createdAt'') \<and>
      get_prop obj ''targetAnnouncementType'' \<in>
        JNum ` AnnouncementType_value ` {BroadcastType, ReplyType, ReactionType} \<and>
      \<not> isValidSignature (get_prop obj ''targetSignature'') \<longrightarrow>
      isTombstoneAnnouncement ids obj =
        Inl (AnnouncementError ''Announcement has invalid target signature''))"
  unfolding target_type_checks [symmetric] by (simp add: isTombstoneAnnouncement_def)

lemma isTombstoneAnnouncement_accepts:
  "(isRecord obj \<and>
      loose_eq_number ids (get_prop obj ''announcementType'') (AnnouncementType_value TombstoneType) \<and>
      isDSNPUserId ids (get_prop obj ''fromId'') \<and>
      isNumber (get_prop obj ''createdAt'') \<and>
      get_prop obj ''targetAnnouncementType'' \<in>
        JNum ` AnnouncementType_value ` {BroadcastType, ReplyType, ReactionType} \<and>
      isValidSignature (get_prop obj ''targetSignature'') \<longrightarrow>
      isTombstoneAnnouncement ids obj = Inr True)"
  unfolding target_type_checks [symmetric] by (simp add: isTombstoneAnnouncement_def)

lemma isGraphChangeAnnouncement_iff:
  "isGraphChangeAnnouncement ids obj =
      (isRecord obj \<and>
       loose_eq_number ids (get_prop obj ''announcementType'') (AnnouncementType_value GraphChangeType) \<and>
       isDSNPUserId ids (get_prop obj ''fromId'') \<and>
       get_prop obj ''changeType'' \<in> JNum ` DSNPGraphChangeType_value ` {Follow, Unfollow} \<and>
       isDSNPUserId ids (get_prop obj ''objectId'') \<and>
       isNumber (get_prop obj ''createdAt''))"
  unfolding isGraphChangeType_enumerated [symmetric] by (auto simp: isGraphChangeAnnouncement_def)

lemma isBroadcastAnnouncement_iff:
  "isBroadcastAnnouncement ids obj =
      (isRecord obj \<and>
       loose_eq_number ids (get_prop obj ''announcementType'') (AnnouncementType_value BroadcastType) \<and>
       isDSNPUserId ids (get_prop obj ''fromId'') \<and>
       isString (get_prop obj ''url'') \<and>
       isString (get_prop obj ''contentHash''))"
  by (auto simp: isBroadcastAnnouncement_def)

lemma isReplyAnnouncement_iff:
  "isReplyAnnouncement ids obj =
      (isRecord obj \<and>
       loose_eq_number ids (get_prop obj ''announcementType'') (AnnouncementType_value ReplyType) \<and>
       isDSNPUserId ids (get_prop obj ''fromId'') \<and>
       isString (get_prop obj ''url'') \<and>
       isString (get_prop obj ''contentHash'') \<and>
       isDSNPAnnouncementURI ids (get_prop obj ''inReplyTo''))"
  by (auto simp: isReplyAnnouncement_def)

lemma isReactionAnnouncement_iff:
  "isReactionAnnouncement ids obj =
      (isRecord obj \<and>
       loose_eq_number ids (get_prop obj ''announcementType'') (AnnouncementType_value ReactionType) \<and>
       isDSNPUserId ids (get_prop obj ''fromId'') \<and>
       isValidEmoji (get_prop obj ''emoji'') \<and>
       isDSNPAnnouncementURI ids (get_prop obj ''inReplyTo''))"
  by (auto simp: isReactionAnnouncement_def)

lemma isProfileAnnouncement_iff:
  "isProfileAnnouncement ids obj =
      (isRecord obj \<and>
       loose_eq_number ids (get_prop obj ''announcementType'') (AnnouncementType_value ProfileType) \<and>
       isDSNPUserId ids (get_prop obj ''fromId'') \<and>
       isString (get_prop obj ''url'') \<and>
       isString (get_prop obj ''contentHash''))"
  by (auto simp: isProfileAnnouncement_def)

lemma isAnnouncement_rejects:
  "(\<not> isRecord obj \<or>
      get_prop obj ''announcementType'' \<notin> JNum ` AnnouncementType_value ` UNIV \<longrightarrow>
      isAnnouncement ids obj = Inr False)"
  unfolding isAnnouncementType_enumerated [symmetric] by (simp add: isAnnouncement_def)

lemma isAnnouncement_tombstone:
  "(isRecord obj \<and>
      get_prop obj ''announcementType'' = JNum (AnnouncementType_value TombstoneType) \<longrightarrow>
      isAnnouncement ids obj = isTombstoneAnnouncement ids obj)"
  by (simp add: isAnnouncement_def validators_def isAnnouncementType_def isNumber_def)

lemma isAnnouncement_graph_change:
  "(isRecord obj \<and>
      get_prop obj ''announcementType'' = JNum (AnnouncementType_value GraphChangeType) \<longrightarrow>
      isAnnouncement ids obj = Inr (isGraphChangeAnnouncement ids obj))"
  by (simp add: isAnnouncement_def validators_def isAnnouncementType_def isNumber_def)

lemma isAnnouncement_broadcast:
  "(isRecord obj \<and>
      get_prop obj ''announcementType'' = JNum (AnnouncementType_value BroadcastType) \<longrightarrow>
      isAnnouncement ids obj = Inr (isBroadcastAnnouncement ids obj))"
  by (simp add: isAnnouncement_def validators_def isAnnouncementType_def isNumber_def)

lemma isAnnouncement_reply:
  "(isRecord obj \<and>
      get_prop obj ''announcementType'' = JNum (AnnouncementType_value ReplyType) \<longrightarrow>
      isAnnouncement ids obj = Inr (isReplyAnnouncement ids obj))"
  by (simp add: isAnnouncement_def validators_def isAnnouncementType_def isNumber_def)

lemma isAnnouncement_reaction:
  "(isRecord obj \<and>
      get_prop obj ''announcementType'' = JNum (AnnouncementType_value ReactionType) \<longrightarrow>
      isAnnouncement ids obj = Inr (isReactionAnnouncement ids obj))"
  by (simp add: isAnnouncement_def validators_def isAnnouncementType_def isNumber_def)

lemma isAnnouncement_profile:
  "(isRecord obj \<and>
      get_prop obj ''announcementType'' = JNum (AnnouncementType_value ProfileType) \<longrightarrow>
      isAnnouncement ids obj = Inr (isProfileAnnouncement ids obj))"
  by (simp add: isAnnouncement_def validators_def isAnnouncementType_def isNumber_def)

text \<open>
  Claim C9, as the code has it. Only the tombstone validator fails with an error, and
  the error names the check that failed: the checks run in the order record,
  discriminant, fromId, createdAt, target type, target signature, the first that fails
  decides the message, and the validator returns true when all pass; it never returns
  false. Each of the other five validators is a type guard: it returns true exactly when
  the value is a record, its discriminant equals (under \<^verbatim>\<open>!=\<close>, the loose comparison)
  the variant's type and every field passes its check, and false otherwise, without an
  error and without naming a field. The dispatch validator isAnnouncement returns false,
  with no error, for a value that is not a record and for every discriminant that is not
  a number of the enumerated set; for a record with an enumerated discriminant it
  returns what the validator of that variant returns, or raises what the tombstone
  validator raises. There is no error for an unknown announcement type.
\<close>

theorem isAnnouncement_failure_modes:
  "(\<not> isRecord obj \<longrightarrow>
      isTombstoneAnnouncement ids obj = Inl (AnnouncementError ''Announcement is not an object''))
   \<and> (isRecord obj \<and>
      \<not> loose_eq_number ids (get_prop obj ''announcementType'') (AnnouncementType_value TombstoneType) \<longrightarrow>
      isTombstoneAnnouncement ids obj = Inl (AnnouncementError ''Announcement is not tombstone''))
   \<and> (isRecord obj \<and>
      loose_eq_number ids (get_prop obj ''announcementType'') (AnnouncementType_value TombstoneType) \<and>
      \<not> isDSNPUserId ids (get_prop obj ''fromId'') \<longrightarrow>
      isTombstoneAnnouncement ids obj = Inl (AnnouncementError ''Announcement has invalid fromId''))
   \<and> (isRecord obj \<and>
      loose_eq_number ids (get_prop obj ''announcementType'') (AnnouncementType_value TombstoneType) \<and>
      isDSNPUserId ids (get_prop obj ''fromId'') \<and>
      \<not> isNumber (get_prop obj ''createdAt'') \<longrightarrow>
      isTombstoneAnnouncement ids obj = Inl (AnnouncementError ''Announcement has invalid createdAt''))
   \<and> (isRecord obj \<and>
      loose_eq_number ids (get_prop obj ''announcementType'') (AnnouncementType_value TombstoneType) \<and>
      isDSNPUserId ids (get_prop obj ''fromId'') \<and>
      isNumber (get_prop obj ''createdAt'') \<and>
      get_prop obj ''targetAnnouncementType'' \<notin>
        JNum ` AnnouncementType_value ` {BroadcastType, ReplyType, ReactionType} \<longrightarrow>
      isTombstoneAnnouncement ids obj = Inl (AnnouncementError ''Announcement has invalid target type''))
   \<and> (isRecord obj \<and>
      loose_eq_number ids (get_prop obj ''announcementType'') (AnnouncementType_value TombstoneType) \<and>
      isDSNPUserId ids (get_prop obj ''fromId'') \<and>
      isNumber (get_prop obj ''createdAt'') \<and>
      get_prop obj ''targetAnnouncementType'' \<in>
        JNum ` AnnouncementType_value ` {BroadcastType, ReplyType, ReactionType} \<and>
      \<not> isValidSignature (get_prop obj ''targetSignature'') \<longrightarrow>
      isTombstoneAnnouncement ids obj =
        Inl (AnnouncementError ''Announcement has invalid target signature''))
   \<and> (isRecord obj \<and>
      loose_eq_number ids (get_prop obj ''announcementType'') (AnnouncementType_value TombstoneType) \<and>
      isDSNPUserId ids (get_prop obj ''fromId'') \<and>
      isNumber (get_prop obj ''createdAt'') \<and>
      get_prop obj ''targetAnnouncementType'' \<in>
        JNum ` AnnouncementType_value ` {BroadcastType, ReplyType, ReactionType} \<and>
      isValidSignature (get_prop obj ''targetSignature'') \<longrightarrow>
      isTombstoneAnnouncement ids obj = Inr True)
   \<and> isGraphChangeAnnouncement ids obj =
      (isRecord obj \<and>
       loose_eq_number ids (get_prop obj ''announcementType'') (AnnouncementType_value GraphChangeType) \<and>
       isDSNPUserId ids (get_prop obj ''fromId'') \<and>
       get_prop obj ''changeType'' \<in> JNum ` DSNPGraphChangeType_value ` {Follow, Unfollow} \<and>
       isDSNPUserId ids (get_prop obj ''objectId'') \<and>
       isNumber (get_prop obj ''createdAt''))
   \<and> isBroadcastAnnouncement ids obj =
      (isRecord obj \<and>
       loose_eq_number ids (get_prop obj ''announcementType'') (AnnouncementType_value BroadcastType) \<and>
       isDSNPUserId ids (get_prop obj ''fromId'') \<and>
       isString (get_prop obj ''url'') \<and>
       isString (get_prop obj ''contentHash''))
   \<and> isReplyAnnouncement ids obj =
      (isRecord obj \<and>
       loose_eq_number ids (get_prop obj ''announcementType'') (AnnouncementType_value ReplyType) \<and>
       isDSNPUserId ids (get_prop obj ''fromId'') \<and>
       isString (get_prop obj ''url'') \<and>
       isString (get_prop obj ''contentHash'') \<and>
       isDSNPAnnouncementURI ids (get_prop obj ''inReplyTo''))
   \<and> isReactionAnnouncement ids obj =
      (isRecord obj \<and>
       loose_eq_number ids (get_prop obj ''announcementType'') (AnnouncementType_value ReactionType) \<and>
       isDSNPUserId ids (get_prop obj ''fromId'') \<and>
       isValidEmoji (get_prop obj ''emoji'') \<and>
       isDSNPAnnouncementURI ids (get_prop obj ''inReplyTo''))
   \<and> isProfileAnnouncement ids obj =
      (isRecord obj \<and>
       loose_eq_number ids (get_prop obj ''announcementType'') (AnnouncementType_value ProfileType) \<and>
       isDSNPUserId ids (get_prop obj ''fromId'') \<and>
       isString (get_prop obj ''url'') \<and>
       isString (get_prop obj ''contentHash''))
   \<and> (\<not> isRecord obj \<or>
      get_prop obj ''announcementType'' \<notin> JNum ` AnnouncementType_value ` UNIV \<longrightarrow>
      isAnnouncement ids obj = Inr False)
   \<and> (isRecord obj \<and>
      get_prop obj ''announcementType'' = JNum (AnnouncementType_value TombstoneType) \<longrightarrow>
      isAnnouncement ids obj = isTombstoneAnnouncement ids obj)
   \<and> (isRecord obj \<and>
      get_prop obj ''announcementType'' = JNum (AnnouncementType_value GraphChangeType) \<longrightarrow>
      isAnnouncement ids obj = Inr (isGraphChangeAnnouncement ids obj))
   \<and> (isRecord obj \<and>
      get_prop obj ''announcementType'' = JNum (AnnouncementType_value BroadcastType) \<longrightarrow>
      isAnnouncement ids obj = Inr (isBroadcastAnnouncement ids obj))
   \<and> (isRecord obj \<and>
      get_prop obj ''announcementType'' = JNum (AnnouncementType_value ReplyType) \<longrightarrow>
      isAnnouncement ids obj = Inr (isReplyAnnouncement ids obj))
   \<and> (isRecord obj \<and>
      get_prop obj ''announcementType'' = JNum (AnnouncementType_value ReactionType) \<longrightarrow>
      isAnnouncement ids obj = Inr (isReactionAnnouncement ids obj))
   \<and> (isRecord obj \<and>
      get_prop obj ''announcementType'' = JNum (AnnouncementType_value ProfileType) \<longrightarrow>
      isAnnouncement ids obj = Inr (isProfileAnnouncement ids obj))"
  by (intro conjI)
    (rule isTombstoneAnnouncement_not_object
      isTombstoneAnnouncement_not_tombstone
      isTombstoneAnnouncement_fromId
      isTombstoneAnnouncement_createdAt
      isTombstoneAnnouncement_target_type
      isTombstoneAnnouncement_target_signature
      isTombstoneAnnouncement_accepts
      isGraphChangeAnnouncement_iff
      isBroadcastAnnouncement_iff
      isReplyAnnouncement_iff
      isReactionAnnouncement_iff
      isProfileAnnouncement_iff
      isAnnouncement_rejects
      isAnnouncement_tombstone
      isAnnouncement_graph_change
      isAnnouncement_broadcast
      isAnnouncement_reply
      isAnnouncement_reaction
      isAnnouncement_profile)+

theorem isAnnouncement_failure_modes_witness:
  "isTombstoneAnnouncement sample_identifiers JNull =
       Inl (AnnouncementError ''Announcement is not an object'')
   \<and> isTombstoneAnnouncement sample_identifiers (sample_broadcast JNull) =
       Inl (AnnouncementError ''Announcement is not tombstone'')
   \<and> isTombstoneAnnouncement sample_identifiers
       (sample_tombstone JNull (JNum 1627726272000) (JNum 2) (JStr sample_signature)) =
       Inl (AnnouncementError ''Announcement has invalid fromId'')
   \<and> isTombstoneAnnouncement sample_identifiers
       (sample_tombstone (JStr sample_id) JUndefined (JNum 2) (JStr sample_signature)) =
       Inl (AnnouncementError ''Announcement has invalid createdAt'')
   \<and> isTombstoneAnnouncement sample_identifiers
       (sample_tombstone (JStr sample_id) (JNum 1627726272000) (JNum 5) (JStr sample_signature)) =
       Inl (AnnouncementError ''Announcement has invalid target type'')
   \<and> isTombstoneAnnouncement sample_identifiers
       (sample_tombstone (JStr sample_id) (JNum 1627726272000) (JNum 2) (JStr sample_id)) =
       Inl (AnnouncementError ''Announcement has invalid target signature'')
   \<and> isTombstoneAnnouncement sample_identifiers
       (sample_tombstone (JStr sample_id) (JNum 1627726272000) (JNum 2) (JStr sample_signature)) =
       Inr True
   \<and> isAnnouncement sample_identifiers (JObj [(''announcementType'', JNum 6)]) = Inr False
   \<and> isAnnouncement sample_identifiers (JStr sample_id) = Inr False
   \<and> isAnnouncement sample_identifiers
       (JObj [(''announcementType'', JStr [0x32]), (''fromId'', JStr sample_id),
             (''url'', JStr sample_id), (''contentHash'', JStr sample_id)]) = Inr False
   \<and> isBroadcastAnnouncement sample_identifiers
       (JObj [(''announcementType'', JStr [0x32]), (''fromId'', JStr sample_id),
             (''url'', JStr sample_id), (''contentHash'', JStr sample_id)]) = True
   \<and> isAnnouncement sample_identifiers
       (sample_tombstone JNull (JNum 1627726272000) (JNum 2) (JStr sample_signature)) =
       Inl (AnnouncementError ''Announcement has invalid fromId'')
   \<and> isAnnouncement sample_identifiers
       (sample_tombstone (JStr sample_id) (JNum 1627726272000) (JNum 2) (JStr sample_signature)) = Inr True
   \<and> isAnnouncement sample_identifiers (JObj [(''announcementType'', JNum 1)]) = Inr False
   \<and> isAnnouncement sample_identifiers (JObj [(''announcementType'', JNum 2)]) = Inr False
   \<and> isAnnouncement sample_identifiers (JObj [(''announcementType'', JNum 3)]) = Inr False
   \<and> isAnnouncement sample_identifiers (JObj [(''announcementType'', JNum 4)]) = Inr False
   \<and> isAnnouncement sample_identifiers (JObj [(''announcementType'', JNum 5)]) = Inr False
   \<and> isAnnouncement sample_identifiers (sample_broadcast (JStr sample_signature)) = Inr True"
proof -
  have not_object: "isTombstoneAnnouncement sample_identifiers JNull =
       Inl (AnnouncementError ''Announcement is not an object'')"
    using isAnnouncement_failure_modes
      [of "JNull" sample_identifiers,
        THEN conjunct1]
    by (simp add: get_prop_def isRecord_def isNumber_def isString_def loose_eq_number_def
        sample_identifiers_def sample_tombstone_def sample_broadcast_def sample_broadcast_fields_def
        isValidSignature_sample isValidSignature_sample_id)
  have not_tombstone: "isTombstoneAnnouncement sample_identifiers (sample_broadcast JNull) =
       Inl (AnnouncementError ''Announcement is not tombstone'')"
    using isAnnouncement_failure_modes
      [of "sample_broadcast JNull" sample_identifiers,
        THEN conjunct2, THEN conjunct1]
    by (simp add: get_prop_def isRecord_def isNumber_def isString_def loose_eq_number_def
        sample_identifiers_def sample_tombstone_def sample_broadcast_def sample_broadcast_fields_def
        isValidSignature_sample isValidSignature_sample_id)
  have bad_fromId: "isTombstoneAnnouncement sample_identifiers
       (sample_tombstone JNull (JNum 1627726272000) (JNum 2) (JStr sample_signature)) =
       Inl (AnnouncementError ''Announcement has invalid fromId'')"
    using isAnnouncement_failure_modes
      [of "sample_tombstone JNull (JNum 1627726272000) (JNum 2) (JStr sample_signature)" sample_identifiers,
        THEN conjunct2, THEN conjunct2, THEN conjunct1]
    by (simp add: get_prop_def isRecord_def isNumber_def isString_def loose_eq_number_def
        sample_identifiers_def sample_tombstone_def sample_broadcast_def sample_broadcast_fields_def
        isValidSignature_sample isValidSignature_sample_id)
  have bad_createdAt: "isTombstoneAnnouncement sample_identifiers
       (sample_tombstone (JStr sample_id) JUndefined (JNum 2) (JStr sample_signature)) =
       Inl (AnnouncementError ''Announcement has invalid createdAt'')"
    using isAnnouncement_failure_modes
      [of "sample_tombstone (JStr sample_id) JUndefined (JNum 2) (JStr sample_signature)" sample_identifiers,
        THEN conjunct2, THEN conjunct2, THEN conjunct2, THEN conjunct1]
    by (simp add: get_prop_def isRecord_def isNumber_def isString_def loose_eq_number_def
        sample_identifiers_def sample_tombstone_def sample_broadcast_def sample_broadcast_fields_def
        isValidSignature_sample isValidSignature_sample_id)
  have bad_target: "isTombstoneAnnouncement sample_identifiers
       (sample_tombstone (JStr sample_id) (JNum 1627726272000) (JNum 5) (JStr sample_signature)) =
       Inl (AnnouncementError ''Announcement has invalid target type'')"
    using isAnnouncement_failure_modes
      [of "sample_tombstone (JStr sample_id) (JNum 1627726272000) (JNum 5) (JStr sample_signature)" sample_identifiers,
        THEN conjunct2, THEN conjunct2, THEN conjunct2, THEN conjunct2, THEN conjunct1]
    by (simp add: get_prop_def isRecord_def isNumber_def isString_def loose_eq_number_def
        sample_identifiers_def sample_tombstone_def sample_broadcast_def sample_broadcast_fields_def
        isValidSignature_sample isValidSignature_sample_id)
  have bad_signature: "isTombstoneAnnouncement sample_identifiers
       (sample_tombstone (JStr sample_id) (JNum 1627726272000) (JNum 2) (JStr sample_id)) =
       Inl (AnnouncementError ''Announcement has invalid target signature'')"
    using isAnnouncement_failure_modes
      [of "sample_tombstone (JStr sample_id) (JNum 1627726272000) (JNum 2) (JStr sample_id)" sample_identifiers,
        THEN conjunct2, THEN conjunct2, THEN conjunct2, THEN conjunct2, THEN conjunct2, THEN conjunct1]
    by (simp add: get_prop_def isRecord_def isNumber_def isString_def loose_eq_number_def
        sample_identifiers_def sample_tombstone_def sample_broadcast_def sample_broadcast_fields_def
        isValidSignature_sample isValidSignature_sample_id)
  have accepted: "isTombstoneAnnouncement sample_identifiers
       (sample_tombstone (JStr sample_id) (JNum 1627726272000) (JNum 2) (JStr sample_signature)) =
       Inr True"
    using isAnnouncement_failure_modes
      [of "sample_tombstone (JStr sample_id) (JNum 1627726272000) (JNum 2) (JStr sample_signature)" sample_identifiers,
        THEN conjunct2, THEN conjunct2, THEN conjunct2, THEN conjunct2, THEN conjunct2, THEN conjunct2, THEN conjunct1]
    by (simp add: get_prop_def isRecord_def isNumber_def isString_def loose_eq_number_def
        sample_identifiers_def sample_tombstone_def sample_broadcast_def sample_broadcast_fields_def
        isValidSignature_sample isValidSignature_sample_id)
  have unknown_type: "isAnnouncement sample_identifiers (JObj [(''announcementType'', JNum 6)]) = Inr False"
    using isAnnouncement_failure_modes
      [of "JObj [(''announcementType'', JNum 6)]" sample_identifiers,
        THEN conjunct2, THEN conjunct2, THEN conjunct2, THEN conjunct2, THEN conjunct2, THEN conjunct2, THEN conjunct2, THEN conjunct2, THEN conjunct2, THEN conjunct2, THEN conjunct2, THEN conjunct2, THEN conjunct1]
    by (auto simp: AnnouncementType_UNIV get_prop_def isRecord_def isNumber_def isString_def
        loose_eq_number_def
        sample_identifiers_def sample_tombstone_def sample_broadcast_def sample_broadcast_fields_def
        isValidSignature_sample isValidSignature_sample_id)
  have no_record: "isAnnouncement sample_identifiers (JStr sample_id) = Inr False"
    using isAnnouncement_failure_modes
      [of "JStr sample_id" sample_identifiers,
        THEN conjunct2, THEN conjunct2, THEN conjunct2, THEN conjunct2, THEN conjunct2, THEN conjunct2, THEN conjunct2, THEN conjunct2, THEN conjunct2, THEN conjunct2, THEN conjunct2, THEN conjunct2, THEN conjunct1]
    by (auto simp: AnnouncementType_UNIV get_prop_def isRecord_def isNumber_def isString_def
        loose_eq_number_def
        sample_identifiers_def sample_tombstone_def sample_broadcast_def sample_broadcast_fields_def
        isValidSignature_sample isValidSignature_sample_id)
  have string_type: "isAnnouncement sample_identifiers
       (JObj [(''announcementType'', JStr [0x32]), (''fromId'', JStr sample_id),
             (''url'', JStr sample_id), (''contentHash'', JStr sample_id)]) = Inr False"
    using isAnnouncement_failure_modes
      [of "JObj [(''announcementType'', JStr [0x32]), (''fromId'', JStr sample_id),
             (''url'', JStr sample_id), (''contentHash'', JStr sample_id)]" sample_identifiers,
        THEN conjunct2, THEN conjunct2, THEN conjunct2, THEN conjunct2, THEN conjunct2, THEN conjunct2, THEN conjunct2, THEN conjunct2, THEN conjunct2, THEN conjunct2, THEN conjunct2, THEN conjunct2, THEN conjunct1]
    by (auto simp: AnnouncementType_UNIV get_prop_def isRecord_def isNumber_def isString_def
        loose_eq_number_def
        sample_identifiers_def sample_tombstone_def sample_broadcast_def sample_broadcast_fields_def
        isValidSignature_sample isValidSignature_sample_id)
  have raised: "isAnnouncement sample_identifiers
       (sample_tombstone JNull (JNum 1627726272000) (JNum 2) (JStr sample_signature)) =
       Inl (AnnouncementError ''Announcement has invalid fromId'')"
    using isAnnouncement_failure_modes
      [of "sample_tombstone JNull (JNum 1627726272000) (JNum 2) (JStr sample_signature)" sample_identifiers,
        THEN conjunct2, THEN conjunct2, THEN conjunct2, THEN conjunct2, THEN conjunct2, THEN conjunct2, THEN conjunct2, THEN conjunct2, THEN conjunct2, THEN conjunct2, THEN conjunct2, THEN conjunct2, THEN conjunct2, THEN conjunct1] bad_fromId
    by (simp add: get_prop_def isRecord_def isNumber_def isString_def loose_eq_number_def
        sample_identifiers_def sample_tombstone_def sample_broadcast_def sample_broadcast_fields_def
        isValidSignature_sample isValidSignature_sample_id)
  have valid: "isAnnouncement sample_identifiers
       (sample_tombstone (JStr sample_id) (JNum 1627726272000) (JNum 2) (JStr sample_signature)) = Inr True"
    using isAnnouncement_failure_modes
      [of "sample_tombstone (JStr sample_id) (JNum 1627726272000) (JNum 2) (JStr sample_signature)" sample_identifiers,
        THEN conjunct2, THEN conjunct2, THEN conjunct2, THEN conjunct2, THEN conjunct2, THEN conjunct2, THEN conjunct2, THEN conjunct2, THEN conjunct2, THEN conjunct2, THEN conjunct2, THEN conjunct2, THEN conjunct2, THEN conjunct1] accepted
    by (simp add: get_prop_def isRecord_def isNumber_def isString_def loose_eq_number_def
        sample_identifiers_def sample_tombstone_def sample_broadcast_def sample_broadcast_fields_def
        isValidSignature_sample isValidSignature_sample_id)
  have graph_change: "isAnnouncement sample_identifiers (JObj [(''announcementType'', JNum 1)]) = Inr False"
    using isAnnouncement_failure_modes
      [of "JObj [(''announcementType'', JNum 1)]" sample_identifiers,
        THEN conjunct2, THEN conjunct2, THEN conjunct2, THEN conjunct2, THEN conjunct2, THEN conjunct2, THEN conjunct2, THEN conjunct2, THEN conjunct2, THEN conjunct2, THEN conjunct2, THEN conjunct2, THEN conjunct2, THEN conjunct2, THEN conjunct1]
      isAnnouncement_failure_modes
      [of "JObj [(''announcementType'', JNum 1)]" sample_identifiers,
        THEN conjunct2, THEN conjunct2, THEN conjunct2, THEN conjunct2, THEN conjunct2, THEN conjunct2, THEN conjunct2, THEN conjunct1]
    by (simp add: get_prop_def isRecord_def isNumber_def isString_def loose_eq_number_def
        sample_identifiers_def sample_tombstone_def sample_broadcast_def sample_broadcast_fields_def
        isValidSignature_sample isValidSignature_sample_id)
  have broadcast: "isAnnouncement sample_identifiers (JObj [(''announcementType'', JNum 2)]) = Inr False"
    using isAnnouncement_failure_modes
      [of "JObj [(''announcementType'', JNum 2)]" sample_identifiers,
        THEN conjunct2, THEN conjunct2, THEN conjunct2, THEN conjunct2, THEN conjunct2, THEN conjunct2, THEN conjunct2, THEN conjunct2, THEN conjunct2, THEN conjunct2, THEN conjunct2, THEN conjunct2, THEN conjunct2, THEN conjunct2, THEN conjunct2, THEN conjunct1]
      isAnnouncement_failure_modes
      [of "JObj [(''announcementType'', JNum 2)]" sample_identifiers,
        THEN conjunct2, THEN conjunct2, THEN conjunct2, THEN conjunct2, THEN conjunct2, THEN conjunct2, THEN conjunct2, THEN conjunct2, THEN conjunct1]
    by (simp add: get_prop_def isRecord_def isNumber_def isString_def loose_eq_number_def
        sample_identifiers_def sample_tombstone_def sample_broadcast_def sample_broadcast_fields_def
        isValidSignature_sample isValidSignature_sample_id)
  have reply: "isAnnouncement sample_identifiers (JObj [(''announcementType'', JNum 3)]) = Inr False"
    using isAnnouncement_failure_modes
      [of "JObj [(''announcementType'', JNum 3)]" sample_identifiers,
        THEN conjunct2, THEN conjunct2, THEN conjunct2, THEN conjunct2, THEN conjunct2, THEN conjunct2, THEN conjunct2, THEN conjunct2, THEN conjunct2, THEN conjunct2, THEN conjunct2, THEN conjunct2, THEN conjunct2, THEN conjunct2, THEN conjunct2, THEN conjunct2, THEN conjunct1]
      isAnnouncement_failure_modes
      [of "JObj [(''announcementType'', JNum 3)]" sample_identifiers,
        THEN conjunct2, THEN conjunct2, THEN conjunct2, THEN conjunct2, THEN conjunct2, THEN conjunct2, THEN conjunct2, THEN conjunct2, THEN conjunct2, THEN conjunct1]
    by (simp add: get_prop_def isRecord_def isNumber_def isString_def loose_eq_number_def
        sample_identifiers_def sample_tombstone_def sample_broadcast_def sample_broadcast_fields_def
        isValidSignature_sample isValidSignature_sample_id)
  have reaction: "isAnnouncement sample_identifiers (JObj [(''announcementType'', JNum 4)]) = Inr False"
    using isAnnouncement_failure_modes
      [of "JObj [(''announcementType'', JNum 4)]" sample_identifiers,
        THEN conjunct2, THEN conjunct2, THEN conjunct2, THEN conjunct2, THEN conjunct2, THEN conjunct2, THEN conjunct2, THEN conjunct2, THEN conjunct2, THEN conjunct2, THEN conjunct2, THEN conjunct2, THEN conjunct2, THEN conjunct2, THEN conjunct2, THEN conjunct2, THEN conjunct2, THEN conjunct1]
      isAnnouncement_failure_modes
      [of "JObj [(''announcementType'', JNum 4)]" sample_identifiers,
        THEN conjunct2, THEN conjunct2, THEN conjunct2, THEN conjunct2, THEN conjunct2, THEN conjunct2, THEN conjunct2, THEN conjunct2, THEN conjunct2, THEN conjunct2, THEN conjunct1]
    by (simp add: get_prop_def isRecord_def isNumber_def isString_def loose_eq_number_def
        sample_identifiers_def sample_tombstone_def sample_broadcast_def sample_broadcast_fields_def
        isValidSignature_sample isValidSignature_sample_id)
  have profile: "isAnnouncement sample_identifiers (JObj [(''announcementType'', JNum 5)]) = Inr False"
    using isAnnouncement_failure_modes
      [of "JObj [(''announcementType'', JNum 5)]" sample_identifiers,
        THEN conjunct2, THEN conjunct2, THEN conjunct2, THEN conjunct2, THEN conjunct2, THEN conjunct2, THEN conjunct2, THEN conjunct2, THEN conjunct2, THEN conjunct2, THEN conjunct2, THEN conjunct2, THEN conjunct2, THEN conjunct2, THEN conjunct2, THEN conjunct2, THEN conjunct2, THEN conjunct2]
      isAnnouncement_failure_modes
      [of "JObj [(''announcementType'', JNum 5)]" sample_identifiers,
        THEN conjunct2, THEN conjunct2, THEN conjunct2, THEN conjunct2, THEN conjunct2, THEN conjunct2, THEN conjunct2, THEN conjunct2, THEN conjunct2, THEN conjunct2, THEN conjunct2, THEN conjunct1]
    by (simp add: get_prop_def isRecord_def isNumber_def isString_def loose_eq_number_def
        sample_identifiers_def sample_tombstone_def sample_broadcast_def sample_broadcast_fields_def
        isValidSignature_sample isValidSignature_sample_id)
  have valid_broadcast: "isAnnouncement sample_identifiers (sample_broadcast (JStr sample_signature)) = Inr True"
    using isAnnouncement_failure_modes
      [of "sample_broadcast (JStr sample_signature)" sample_identifiers,
        THEN conjunct2, THEN conjunct2, THEN conjunct2, THEN conjunct2, THEN conjunct2, THEN conjunct2, THEN conjunct2, THEN conjunct2, THEN conjunct2, THEN conjunct2, THEN conjunct2, THEN conjunct2, THEN conjunct2, THEN conjunct2, THEN conjunct2, THEN conjunct1]
      isAnnouncement_failure_modes
      [of "sample_broadcast (JStr sample_signature)" sample_identifiers,
        THEN conjunct2, THEN conjunct2, THEN conjunct2, THEN conjunct2, THEN conjunct2, THEN conjunct2, THEN conjunct2, THEN conjunct2, THEN conjunct1]
    by (simp add: get_prop_def isRecord_def isNumber_def isString_def loose_eq_number_def
        sample_identifiers_def sample_tombstone_def sample_broadcast_def sample_broadcast_fields_def
        isValidSignature_sample isValidSignature_sample_id)
  have loose_type: "isBroadcastAnnouncement sample_identifiers
       (JObj [(''announcementType'', JStr [0x32]), (''fromId'', JStr sample_id),
             (''url'', JStr sample_id), (''contentHash'', JStr sample_id)]) = True"
    using isAnnouncement_failure_modes
      [of "JObj [(''announcementType'', JStr [0x32]), (''fromId'', JStr sample_id),
             (''url'', JStr sample_id), (''contentHash'', JStr sample_id)]" sample_identifiers,
        THEN conjunct2, THEN conjunct2, THEN conjunct2, THEN conjunct2, THEN conjunct2, THEN conjunct2, THEN conjunct2, THEN conjunct2, THEN conjunct1]
    by (simp add: get_prop_def isRecord_def isString_def loose_eq_number_def
        sample_identifiers_def decimal_digits_to_number_def)
  show ?thesis
    using loose_type not_object not_tombstone bad_fromId bad_createdAt bad_target bad_signature accepted unknown_type no_record string_type raised valid graph_change broadcast reply reaction profile valid_broadcast
    by simp
qed

text \<open>
  The claim as stated fails: a broadcast whose fromId is null is malformed, and a record
  whose discriminant is 99 has an unknown type, yet both validations return false and
  raise no error.
\<close>

theorem isAnnouncement_returns_false_counterexample:
  "isAnnouncement sample_identifiers (JObj [(''announcementType'', JNum 99)]) = Inr False
   \<and> isBroadcastAnnouncement sample_identifiers
       (JObj [(''announcementType'', JNum 2), (''fromId'', JNull)]) = False
   \<and> isAnnouncement sample_identifiers
       (JObj [(''announcementType'', JNum 2), (''fromId'', JNull)]) = Inr False"
  by (simp add: isAnnouncement_def validators_def isBroadcastAnnouncement_def
      isAnnouncementType_def loose_eq_number_def get_prop_def isRecord_def isString_def isNumber_def
      sample_identifiers_def)

lemma isValidEmoji_charCode_empty: "isValidEmoji_charCode (JStr []) = True"
  by (simp add: isValidEmoji_charCode_def)

text \<open>
  Claim C10. The emoji pattern needs at least one code point, so isValidEmoji rejects
  the empty string, and isReactionAnnouncement returns false for every object whose emoji
  field is the empty string, also when every other field is valid.
\<close>

theorem isReactionAnnouncement_empty_emoji:
  "\<not> isValidEmoji (JStr [])
   \<and> (get_prop obj ''emoji'' = JStr [] \<longrightarrow> isReactionAnnouncement ids obj = False)"
  by (simp add: isValidEmoji_def matches_EMOJI_REGEX_def isReactionAnnouncement_def)

theorem isReactionAnnouncement_empty_emoji_witness:
  "get_prop (sample_reaction []) ''emoji'' = JStr []
   \<and> isReactionAnnouncement sample_identifiers (sample_reaction []) = False
   \<and> isReactionAnnouncement sample_identifiers (sample_reaction [0xD83D, 0xDE00]) = True"
proof -
  have emoji: "get_prop (sample_reaction []) ''emoji'' = JStr []"
    by (simp add: get_prop_def sample_reaction_def)
  have "isReactionAnnouncement sample_identifiers (sample_reaction []) = False"
    using isReactionAnnouncement_empty_emoji [of "sample_reaction []" sample_identifiers] emoji
    by simp
  moreover have "isReactionAnnouncement sample_identifiers (sample_reaction [0xD83D, 0xDE00]) = True"
    by (simp add: isReactionAnnouncement_def get_prop_def isRecord_def isString_def isNumber_def
        loose_eq_number_def isValidEmoji_def matches_EMOJI_REGEX_def in_emoji_range_def is_high_surrogate_def is_low_surrogate_def
        sample_reaction_def sample_identifiers_def sample_id_def)
  ultimately show ?thesis using emoji by simp
qed

section \<open>Properties of the batch writer\<close>

lemma write_all_append: "write_all ops (cs @ ds) s = write_all ops ds (write_all ops cs s)"
  by (simp add: write_all_def)

lemma write_all_Nil: "write_all ops [] s = s"
  by (simp add: write_all_def)

lemma writeBatch_loop_homogeneous:
  "\<forall>b \<in> set xs. dsnpType b = t \<Longrightarrow>
   writeBatch_loop pq ops xs (Some t) w s =
     (Inr (Some t, fst (rows_chunks pq w xs)), write_all ops (snd (rows_chunks pq w xs)) s)"
  by (induction xs arbitrary: w s) (auto simp: write_all_append write_all_Nil split: prod.splits)

lemma writeBatch_loop_mixed:
  "\<exists>b \<in> set xs. dsnpType b \<noteq> t \<Longrightarrow>
   fst (writeBatch_loop pq ops xs (Some t) w s) = Inl MixedTypeBatchError"
  by (induction xs arbitrary: w s) (auto split: prod.splits)

lemma writeBatch_loop_first:
  "writeBatch_loop pq ops (a # rest) None w s =
     writeBatch_loop pq ops rest (Some (dsnpType a)) (fst (appendRow pq w a))
       (write_all ops (snd (appendRow pq w a)) s)"
  by (simp split: prod.splits)

lemma write_all_hashing:
  "write_all hashingWriteStream cs (h, ws) = (h @ concat cs, ws\<lparr>written := written ws @ cs\<rparr>)"
  by (induction cs arbitrary: h ws)
    (auto simp: write_all_def hashingWriteStream_def hashGenerator_update_def WriteStream_write_def)

lemma createFile_no_element:
  "elements announcements = [] \<Longrightarrow>
   createFile pq keccak256_hex targetPath announcements opts = (Inl EmptyBatchError, opts)"
  by (cases announcements) (simp_all add: createFile_def)

lemma writeBatch_no_element:
  "elements announcements = [] \<Longrightarrow>
   fst (writeBatch pq ops schema announcements bloom s) = Inl EmptyBatchError"
  by (simp add: writeBatch_def split: prod.splits)

lemma writeBatch_other_type:
  assumes "elements announcements = a # rest" "\<exists>b \<in> set rest. dsnpType b \<noteq> dsnpType a"
  shows "fst (writeBatch pq ops schema announcements bloom s) = Inl MixedTypeBatchError"
proof -
  obtain w chunks where o: "openStream pq schema bloom = (w, chunks)" by (cases "openStream pq schema bloom")
  let ?r = "writeBatch_loop pq ops (a # rest) None w (write_all ops chunks s)"
  have "fst ?r = Inl MixedTypeBatchError"
    unfolding writeBatch_loop_first by (rule writeBatch_loop_mixed [OF assms(2)])
  then show ?thesis
    using assms(1) o by (cases ?r) (simp add: writeBatch_def)
qed

lemma writeBatch_Inr_one_type:
  assumes "fst (writeBatch pq ops schema announcements bloom s) = Inr u"
  shows "\<exists>a rest. elements announcements = a # rest \<and> (\<forall>b \<in> set rest. dsnpType b = dsnpType a)"
proof (cases "elements announcements")
  case Nil
  then show ?thesis using assms writeBatch_no_element [of announcements pq ops schema bloom s] by simp
next
  case (Cons a rest)
  have "\<not> (\<exists>b \<in> set rest. dsnpType b \<noteq> dsnpType a)"
    using assms writeBatch_other_type [OF Cons, of pq ops schema bloom s] by auto
  then show ?thesis using Cons by auto
qed

lemma writeBatch_one_type:
  assumes "elements announcements = a # rest" "\<forall>b \<in> set rest. dsnpType b = dsnpType a"
  shows "writeBatch pq ops schema announcements bloom s =
     (Inr (), stream_end ops EndCallback (write_all ops (batch_chunks pq schema bloom (a # rest)) s))"
proof -
  obtain w header where o: "openStream pq schema bloom = (w, header)" by (cases "openStream pq schema bloom")
  obtain w1 c1 where a1: "appendRow pq w a = (w1, c1)" by (cases "appendRow pq w a")
  obtain w2 c2 where r: "rows_chunks pq w1 rest = (w2, c2)" by (cases "rows_chunks pq w1 rest")
  have "writeBatch_loop pq ops (a # rest) None w (write_all ops header s) =
      (Inr (Some (dsnpType a), w2), write_all ops c2 (write_all ops c1 (write_all ops header s)))"
    unfolding writeBatch_loop_first by (simp add: writeBatch_loop_homogeneous [OF assms(2)] a1 r)
  then show ?thesis
    using assms(1) o a1 r
    by (simp add: writeBatch_def batch_chunks_def write_all_append)
qed

lemma hashing_end:
  "stream_end hashingWriteStream EndCallback (h, ws) = (h, ws\<lparr>ended := True\<rparr>)"
  by (simp add: hashingWriteStream_def WriteStream_end_def)

lemma createFile_Inr:
  assumes "createFile pq keccak256_hex targetPath announcements opts = (Inr r, opts')"
  shows "\<exists>store store' chunks. opts = Some store \<and> opts' = Some store' \<and>
           contents store' targetPath = Some chunks \<and> hash r = keccak256_hex (concat chunks) \<and>
           url r = url_of store targetPath \<and>
           (\<exists>a announcements' b rest schema bloom.
              first_then_break announcements = (Some a, announcements') \<and>
              elements announcements' = b # rest \<and>
              (\<forall>c \<in> set rest. dsnpType c = dsnpType b) \<and>
              getSchemaFor (DSNPType_value (dsnpType a)) = Inr schema \<and>
              getBloomFilterOptionsFor (DSNPType_value (dsnpType a)) = Inr bloom \<and>
              chunks = batch_chunks pq schema (Some bloom) (b # rest))"
proof -
  from assms obtain a anns' where f: "first_then_break announcements = (Some a, anns')"
    by (cases "first_then_break announcements"; cases "fst (first_then_break announcements)")
       (auto simp: createFile_def)
  from assms f obtain schema where sch: "getSchemaFor (DSNPType_value (dsnpType a)) = Inr schema"
    by (cases "getSchemaFor (DSNPType_value (dsnpType a))") (auto simp: createFile_def)
  from assms f sch obtain bloom where bl: "getBloomFilterOptionsFor (DSNPType_value (dsnpType a)) = Inr bloom"
    by (cases "getBloomFilterOptionsFor (DSNPType_value (dsnpType a))") (auto simp: createFile_def)
  from assms f sch bl obtain store where st: "opts = Some store"
    by (cases opts) (auto simp: createFile_def requireGetStore_def)
  let ?s0 = "(hashGenerator_create, \<lparr>written = [], ended = False\<rparr>)"
  let ?w = "writeBatch pq hashingWriteStream schema anns' (Some bloom) ?s0"
  have ok: "fst ?w = Inr ()"
    using assms f sch bl st
    by (cases ?w; cases "fst ?w")
       (auto simp: createFile_def requireGetStore_def putStream_def split: prod.splits sum.splits)
  from writeBatch_Inr_one_type [OF ok] obtain b rest where
    el: "elements anns' = b # rest" and hom: "\<forall>c \<in> set rest. dsnpType c = dsnpType b" by blast
  have w: "?w = (Inr (), (concat (batch_chunks pq schema (Some bloom) (b # rest)),
                \<lparr>written = batch_chunks pq schema (Some bloom) (b # rest), ended = True\<rparr>))"
    using writeBatch_one_type [OF el hom, of pq hashingWriteStream schema "Some bloom" ?s0]
    by (simp add: write_all_hashing hashing_end hashGenerator_create_def)
  show ?thesis
    using assms f sch bl st w el hom
    by (auto simp: createFile_def requireGetStore_def putStream_def)
qed

lemma createFile_OneShot_Cons:
  "createFile pq keccak256_hex targetPath (OneShot (a # rest)) (Some store) =
     (Inl EmptyBatchError, Some store)"
proof -
  obtain schema bloom where
    "getSchemaFor (DSNPType_value (dsnpType a)) = Inr schema"
    "getBloomFilterOptionsFor (DSNPType_value (dsnpType a)) = Inr bloom"
    by (cases "dsnpType a") (auto simp: getSchemaFor_def getBloomFilterOptionsFor_def)
  then show ?thesis
    by (simp add: createFile_def requireGetStore_def putStream_def writeBatch_def split: prod.splits)
qed

lemma sample_createFile_at:
  "createFile sample_writer sample_digest targetPath
     (Replayable [sample_signed Broadcast, sample_signed Broadcast]) (Some sample_store) =
   (Inr \<lparr>url = ''http://fakestore.org/'' @ targetPath, hash = ''11''\<rparr>,
    Some (sample_store\<lparr>contents := (contents sample_store)(targetPath \<mapsto>
      [[0x50, 0x41, 0x52, 0x31], [2], [2], [2], [0x50, 0x41, 0x52, 0x31]])\<rparr>))"
  by (simp add: createFile_def getSchemaFor_def getBloomFilterOptionsFor_def requireGetStore_def
      putStream_def writeBatch_def sample_writer_def sample_signed_def sample_store_def
      sample_digest_def write_all_def hashingWriteStream_def hashGenerator_update_def
      hashGenerator_create_def WriteStream_write_def WriteStream_end_def digit_char_def)

lemma sample_createFile:
  "createFile sample_writer sample_digest ''batch.parquet''
     (Replayable [sample_signed Broadcast, sample_signed Broadcast]) (Some sample_store) =
   (Inr \<lparr>url = ''http://fakestore.org/batch.parquet'', hash = ''11''\<rparr>,
    Some (sample_store\<lparr>contents := (contents sample_store)(''batch.parquet'' \<mapsto>
      [[0x50, 0x41, 0x52, 0x31], [2], [2], [2], [0x50, 0x41, 0x52, 0x31]])\<rparr>))"
  using sample_createFile_at [of "''batch.parquet''"] by simp

text \<open>
  Claim C2. For every stream that yields no announcement, createFile fails with
  EmptyBatchError and leaves the configured store as it was: putStream is never reached,
  so nothing becomes retrievable at the destination key. writeBatch, given such a
  stream, fails with the same error.
\<close>

theorem createFile_empty_stream:
  "(elements announcements = [] \<longrightarrow>
      createFile pq keccak256_hex targetPath announcements opts = (Inl EmptyBatchError, opts))
   \<and> (elements announcements = [] \<longrightarrow>
      fst (writeBatch pq ops schema announcements bloom s) = Inl EmptyBatchError)"
  using createFile_no_element [of announcements pq keccak256_hex targetPath opts]
    writeBatch_no_element [of announcements pq ops schema bloom s]
  by blast

theorem createFile_empty_stream_witness:
  "createFile sample_writer sample_digest ''batch.parquet'' (Replayable []) (Some sample_store) =
     (Inl EmptyBatchError, Some sample_store)
   \<and> createFile sample_writer sample_digest ''batch.parquet'' (OneShot []) (Some sample_store) =
     (Inl EmptyBatchError, Some sample_store)
   \<and> createFile sample_writer sample_digest ''batch.parquet'' (Resumable []) (Some sample_store) =
     (Inl EmptyBatchError, Some sample_store)
   \<and> createFile sample_writer sample_digest ''batch.parquet'' (Replayable []) None =
     (Inl EmptyBatchError, None)
   \<and> fst (writeBatch sample_writer plain_stream [] (Replayable []) None
            \<lparr>written = [], ended = False\<rparr>) = Inl EmptyBatchError"
proof -
  note array = createFile_empty_stream
    [of "Replayable []" sample_writer sample_digest "''batch.parquet''" "Some sample_store"
      plain_stream "[]" None "\<lparr>written = [], ended = False\<rparr>"]
  note generator = createFile_empty_stream
    [of "OneShot []" sample_writer sample_digest "''batch.parquet''" "Some sample_store"
      plain_stream "[]" None "\<lparr>written = [], ended = False\<rparr>", THEN conjunct1]
  note iterator = createFile_empty_stream
    [of "Resumable []" sample_writer sample_digest "''batch.parquet''" "Some sample_store"
      plain_stream "[]" None "\<lparr>written = [], ended = False\<rparr>", THEN conjunct1]
  note no_store = createFile_empty_stream
    [of "Replayable []" sample_writer sample_digest "''batch.parquet''" None
      plain_stream "[]" None "\<lparr>written = [], ended = False\<rparr>", THEN conjunct1]
  show ?thesis
    using array generator iterator no_store by simp
qed

text \<open>
  The batch write itself keeps the types apart: writeBatch throws MixedTypeBatchError
  when a later element of the stream it is given differs in type from the first
  (\<open>writeBatch_other_type\<close>), and succeeds only on a non-empty stream of one type
  (\<open>writeBatch_Inr_one_type\<close>). Through createFile this reaches the caller when the
  stream is re-iterable.
\<close>

lemma createFile_Replayable_other_type:
  assumes "\<exists>b \<in> set rest. dsnpType b \<noteq> dsnpType a"
  shows "fst (createFile pq keccak256_hex targetPath (Replayable (a # rest)) (Some store)) =
     Inl MixedTypeBatchError"
proof -
  obtain schema bloom where tables:
    "getSchemaFor (DSNPType_value (dsnpType a)) = Inr schema"
    "getBloomFilterOptionsFor (DSNPType_value (dsnpType a)) = Inr bloom"
    by (cases "dsnpType a") (auto simp: getSchemaFor_def getBloomFilterOptionsFor_def)
  let ?w = "writeBatch pq hashingWriteStream schema (Replayable (a # rest)) (Some bloom)
              (hashGenerator_create, \<lparr>written = [], ended = False\<rparr>)"
  have "fst ?w = Inl MixedTypeBatchError"
    using assms by (intro writeBatch_other_type [of _ a rest]) simp_all
  then show ?thesis
    using tables
    by (cases ?w) (auto simp: createFile_def requireGetStore_def putStream_def)
qed

text \<open>
  An iterator without a return method loses its first element to the loop that reads
  it: the batch holds the elements after the first, under the schema of the first.
\<close>

lemma createFile_Resumable:
  assumes "\<forall>c \<in> set rest. dsnpType c = dsnpType b"
  shows "\<exists>schema bloom.
     getSchemaFor (DSNPType_value (dsnpType a)) = Inr schema \<and>
     getBloomFilterOptionsFor (DSNPType_value (dsnpType a)) = Inr bloom \<and>
     createFile pq keccak256_hex targetPath (Resumable (a # b # rest)) (Some store) =
       (Inr \<lparr>url = url_of store targetPath,
              hash = keccak256_hex (concat (batch_chunks pq schema (Some bloom) (b # rest)))\<rparr>,
        Some (store\<lparr>contents := (contents store)
                (targetPath \<mapsto> batch_chunks pq schema (Some bloom) (b # rest))\<rparr>))"
proof -
  obtain schema bloom where tables:
    "getSchemaFor (DSNPType_value (dsnpType a)) = Inr schema"
    "getBloomFilterOptionsFor (DSNPType_value (dsnpType a)) = Inr bloom"
    by (cases "dsnpType a") (auto simp: getSchemaFor_def getBloomFilterOptionsFor_def)
  have "writeBatch pq hashingWriteStream schema (Resumable (b # rest)) (Some bloom)
          (hashGenerator_create, \<lparr>written = [], ended = False\<rparr>) =
        (Inr (), (concat (batch_chunks pq schema (Some bloom) (b # rest)),
                  \<lparr>written = batch_chunks pq schema (Some bloom) (b # rest), ended = True\<rparr>))"
    using writeBatch_one_type [of "Resumable (b # rest)" b rest pq hashingWriteStream schema
        "Some bloom" "(hashGenerator_create, \<lparr>written = [], ended = False\<rparr>)"] assms
    by (simp add: write_all_hashing hashing_end hashGenerator_create_def)
  then show ?thesis
    using tables by (simp add: createFile_def requireGetStore_def putStream_def)
qed

lemma createFile_Resumable_single:
  "createFile pq keccak256_hex targetPath (Resumable [a]) (Some store) =
     (Inl EmptyBatchError, Some store)"
proof -
  obtain schema bloom where
    "getSchemaFor (DSNPType_value (dsnpType a)) = Inr schema"
    "getBloomFilterOptionsFor (DSNPType_value (dsnpType a)) = Inr bloom"
    by (cases "dsnpType a") (auto simp: getSchemaFor_def getBloomFilterOptionsFor_def)
  then show ?thesis
    by (simp add: createFile_def requireGetStore_def putStream_def writeBatch_def split: prod.splits)
qed

text \<open>
  Claim C3 fails through createFile for a stream that can be read only once. The loop
  that reads the first announcement takes it from the stream, so writeBatch never
  compares it with the others. For a generator yielding a Broadcast and then a Reaction
  the loop's break finishes the generator, writeBatch gets no element, and the error is
  EmptyBatchError, not MixedTypeBatchError. For an iterator without a return method that
  yields a Broadcast and then a Reply, writeBatch gets the Reply alone: createFile
  succeeds, and no error reports the two types.
\<close>

theorem createFile_mixed_stream_read_once:
  "fst (createFile pq keccak256_hex targetPath
          (OneShot [sample_signed Broadcast, sample_signed Reaction]) (Some store)) =
     Inl EmptyBatchError
   \<and> dsnpType (sample_signed Broadcast) \<noteq> dsnpType (sample_signed Reaction)
   \<and> (\<exists>r. fst (createFile pq keccak256_hex targetPath
          (Resumable [sample_signed Broadcast, sample_signed Reply]) (Some store)) = Inr r)
   \<and> dsnpType (sample_signed Broadcast) \<noteq> dsnpType (sample_signed Reply)"
proof -
  have "\<exists>r. fst (createFile pq keccak256_hex targetPath
          (Resumable [sample_signed Broadcast, sample_signed Reply]) (Some store)) = Inr r"
    using createFile_Resumable [of "[]" "sample_signed Reply" "sample_signed Broadcast"
        pq keccak256_hex targetPath store]
    by auto
  then show ?thesis
    by (simp add: createFile_OneShot_Cons sample_signed_def)
qed

text \<open>
  Claim C4. When createFile succeeds, the store holds at the destination key the chunks
  the sink was given, in the order of writing, and the returned hash is the digest of
  their concatenation: the hashing stream feeds every chunk it passes on through write
  to the hash accumulator, as it does a Uint8Array given to end, and the encoder ends
  the stream with a callback and no chunk. Two successful calls whose sinks received
  the same bytes therefore return the same hash.
\<close>

theorem createFile_hash_of_written_chunks:
  "(createFile pq keccak256_hex targetPath announcements opts = (Inr r, opts') \<longrightarrow>
      (\<exists>store' chunks. opts' = Some store' \<and> contents store' targetPath = Some chunks \<and>
         hash r = keccak256_hex (concat chunks)))
   \<and> (createFile pq keccak256_hex targetPath announcements opts = (Inr r, Some store1) \<and>
      createFile pq2 keccak256_hex targetPath2 announcements2 opts2 = (Inr r2, Some store2) \<and>
      contents store1 targetPath = Some chunks1 \<and> contents store2 targetPath2 = Some chunks2 \<and>
      concat chunks1 = concat chunks2 \<longrightarrow>
      hash r = hash r2)
   \<and> write_all hashingWriteStream chunks (h, ws) =
      (h @ concat chunks, ws\<lparr>written := written ws @ chunks\<rparr>)
   \<and> stream_end hashingWriteStream EndCallback (h, ws) = (h, ws\<lparr>ended := True\<rparr>)
   \<and> stream_end hashingWriteStream (EndUint8Array c) (h, ws) =
      (h @ c, ws\<lparr>written := written ws @ [c], ended := True\<rparr>)"
proof (intro conjI impI)
  assume ok: "createFile pq keccak256_hex targetPath announcements opts = (Inr r, opts')"
  from createFile_Inr [OF ok]
  show "\<exists>store' chunks. opts' = Some store' \<and> contents store' targetPath = Some chunks \<and>
         hash r = keccak256_hex (concat chunks)"
    by blast
next
  assume both: "createFile pq keccak256_hex targetPath announcements opts = (Inr r, Some store1) \<and>
      createFile pq2 keccak256_hex targetPath2 announcements2 opts2 = (Inr r2, Some store2) \<and>
      contents store1 targetPath = Some chunks1 \<and> contents store2 targetPath2 = Some chunks2 \<and>
      concat chunks1 = concat chunks2"
  from both have one: "createFile pq keccak256_hex targetPath announcements opts = (Inr r, Some store1)"
    by simp
  from both have two: "createFile pq2 keccak256_hex targetPath2 announcements2 opts2 = (Inr r2, Some store2)"
    by simp
  from createFile_Inr [OF one] both have "hash r = keccak256_hex (concat chunks1)"
    by auto
  moreover from createFile_Inr [OF two] both have "hash r2 = keccak256_hex (concat chunks2)"
    by auto
  ultimately show "hash r = hash r2"
    using both by simp
next
  show "write_all hashingWriteStream chunks (h, ws) =
      (h @ concat chunks, ws\<lparr>written := written ws @ chunks\<rparr>)"
    by (rule write_all_hashing)
next
  show "stream_end hashingWriteStream EndCallback (h, ws) = (h, ws\<lparr>ended := True\<rparr>)"
    by (rule hashing_end)
next
  show "stream_end hashingWriteStream (EndUint8Array c) (h, ws) =
      (h @ c, ws\<lparr>written := written ws @ [c], ended := True\<rparr>)"
    by (simp add: hashingWriteStream_def WriteStream_end_def hashGenerator_update_def)
qed

theorem createFile_hash_of_written_chunks_witness:
  "createFile sample_writer sample_digest ''batch.parquet''
     (Replayable [sample_signed Broadcast, sample_signed Broadcast]) (Some sample_store) =
   (Inr \<lparr>url = ''http://fakestore.org/batch.parquet'', hash = ''11''\<rparr>,
    Some (sample_store\<lparr>contents := (contents sample_store)(''batch.parquet'' \<mapsto>
      [[0x50, 0x41, 0x52, 0x31], [2], [2], [2], [0x50, 0x41, 0x52, 0x31]])\<rparr>))
   \<and> hash \<lparr>url = ''http://fakestore.org/batch.parquet'', hash = ''11''\<rparr> =
     sample_digest (concat [[0x50, 0x41, 0x52, 0x31], [2], [2], [2], [0x50, 0x41, 0x52, 0x31]])
   \<and> hash \<lparr>url = ''http://fakestore.org/batch.parquet'', hash = ''11''\<rparr> =
     hash \<lparr>url = ''http://fakestore.org/copy.parquet'', hash = ''11''\<rparr>"
proof -
  let ?chunks = "[[0x50, 0x41, 0x52, 0x31], [2], [2], [2], [0x50, 0x41, 0x52, 0x31]] :: chunk list"
  let ?stored = "\<lambda>targetPath.
    sample_store\<lparr>contents := (contents sample_store)(targetPath \<mapsto> ?chunks)\<rparr>"
  let ?first = "\<lparr>url = ''http://fakestore.org/batch.parquet'', hash = ''11''\<rparr>"
  let ?second = "\<lparr>url = ''http://fakestore.org/copy.parquet'', hash = ''11''\<rparr>"
  note stored = createFile_hash_of_written_chunks
    [of sample_writer sample_digest "''batch.parquet''"
      "Replayable [sample_signed Broadcast, sample_signed Broadcast]" "Some sample_store"
      ?first "Some (?stored ''batch.parquet'')",
      THEN conjunct1, rule_format, OF sample_createFile]
  then have digest: "hash ?first = sample_digest (concat ?chunks)"
    by auto
  have one: "createFile sample_writer sample_digest ''batch.parquet''
      (Replayable [sample_signed Broadcast, sample_signed Broadcast]) (Some sample_store) =
      (Inr ?first, Some (?stored ''batch.parquet''))"
    using sample_createFile_at [of "''batch.parquet''"] by simp
  have two: "createFile sample_writer sample_digest ''copy.parquet''
      (Replayable [sample_signed Broadcast, sample_signed Broadcast]) (Some sample_store) =
      (Inr ?second, Some (?stored ''copy.parquet''))"
    using sample_createFile_at [of "''copy.parquet''"] by simp
  note twice = createFile_hash_of_written_chunks
    [of sample_writer sample_digest "''batch.parquet''"
      "Replayable [sample_signed Broadcast, sample_signed Broadcast]" "Some sample_store"
      ?first "Some (?stored ''batch.parquet'')" "?stored ''batch.parquet''"
      sample_writer "''copy.parquet''"
      "Replayable [sample_signed Broadcast, sample_signed Broadcast]" "Some sample_store"
      ?second "?stored ''copy.parquet''" ?chunks ?chunks,
      THEN conjunct2, THEN conjunct1]
  have same: "hash ?first = hash ?second"
    using twice one two by simp
  show ?thesis
    using digest same sample_createFile by simp
qed

text \<open>
  Claim C5 fails for a one-shot stream. createFile reads the first announcement in a
  loop that it leaves by break, which closes a generator; writeBatch then loops over
  the same, finished, generator, appends no row and throws EmptyBatchError, although the
  stream held announcements. No batch is produced, so there is nothing to read back.
  An iterator without a return method loses its first announcement to the same loop
  (\<open>createFile_Resumable\<close>, \<open>createFile_Resumable_single\<close>).
\<close>

theorem createFile_one_shot_stream:
  "fst (createFile pq keccak256_hex targetPath (OneShot (a # rest)) (Some store)) =
     Inl EmptyBatchError"
  by (simp add: createFile_OneShot_Cons)

text \<open>
  For a re-iterable stream of one type the rows reach the encoder once each, in the
  order of the stream, and readFile hands the rows of the cursor to the callback in the
  cursor's order.
\<close>

lemma createFile_Replayable:
  assumes "\<forall>b \<in> set rest. dsnpType b = dsnpType a"
  shows "\<exists>schema bloom.
     getSchemaFor (DSNPType_value (dsnpType a)) = Inr schema \<and>
     getBloomFilterOptionsFor (DSNPType_value (dsnpType a)) = Inr bloom \<and>
     createFile pq keccak256_hex targetPath (Replayable (a # rest)) (Some store) =
       (Inr \<lparr>url = url_of store targetPath,
              hash = keccak256_hex (concat (batch_chunks pq schema (Some bloom) (a # rest)))\<rparr>,
        Some (store\<lparr>contents := (contents store)
                (targetPath \<mapsto> batch_chunks pq schema (Some bloom) (a # rest))\<rparr>))"
proof -
  obtain schema bloom where tables:
    "getSchemaFor (DSNPType_value (dsnpType a)) = Inr schema"
    "getBloomFilterOptionsFor (DSNPType_value (dsnpType a)) = Inr bloom"
    by (cases "dsnpType a") (auto simp: getSchemaFor_def getBloomFilterOptionsFor_def)
  have "writeBatch pq hashingWriteStream schema (Replayable (a # rest)) (Some bloom)
          (hashGenerator_create, \<lparr>written = [], ended = False\<rparr>) =
        (Inr (), (concat (batch_chunks pq schema (Some bloom) (a # rest)),
                  \<lparr>written = batch_chunks pq schema (Some bloom) (a # rest), ended = True\<rparr>))"
    using writeBatch_one_type [of "Replayable (a # rest)" a rest pq hashingWriteStream schema
        "Some bloom" "(hashGenerator_create, \<lparr>written = [], ended = False\<rparr>)"] assms
    by (simp add: write_all_hashing hashing_end hashGenerator_create_def)
  then show ?thesis
    using tables by (simp add: createFile_def requireGetStore_def putStream_def)
qed

lemma readFile_in_order:
  "readFile reader (\<lambda>row visited. visited @ [row]) [] = concat (row_groups reader)"
proof -
  have visit: "foldl (\<lambda>visited row. visited @ [row]) acc rows = acc @ rows" for acc rows
    by (induction rows arbitrary: acc) simp_all
  show ?thesis by (simp add: readFile_def visit)
qed

section \<open>Properties of the schema selector and of the probe\<close>

text \<open>
  Claim C6. getSchemaFor and getBloomFilterOptionsFor return a schema and a list of
  indexed columns for each of the five types GraphChange, Broadcast, Reply, Reaction and
  Profile, and fail with InvalidAnnouncementTypeError exactly for every other
  discriminant, 0 (Tombstone) among them; there is no default schema.
\<close>

theorem getSchemaFor_total_on_DSNPType:
  "(\<exists>schema. getSchemaFor (DSNPType_value t) = Inr schema)
   \<and> (\<exists>bloom. getBloomFilterOptionsFor (DSNPType_value t) = Inr bloom)
   \<and> (getSchemaFor n = Inl (InvalidAnnouncementTypeError n)) = (n \<notin> {1, 2, 3, 4, 5})
   \<and> (getBloomFilterOptionsFor n = Inl (InvalidAnnouncementTypeError n)) = (n \<notin> {1, 2, 3, 4, 5})
   \<and> (\<exists>schema. getSchemaFor n = Inr schema) = (n \<in> {1, 2, 3, 4, 5})
   \<and> (\<exists>bloom. getBloomFilterOptionsFor n = Inr bloom) = (n \<in> {1, 2, 3, 4, 5})
   \<and> getSchemaFor 0 = Inl (InvalidAnnouncementTypeError 0)
   \<and> getBloomFilterOptionsFor 0 = Inl (InvalidAnnouncementTypeError 0)
   \<and> getSchemaFor (AnnouncementType_value TombstoneType) =
       Inl (InvalidAnnouncementTypeError (AnnouncementType_value TombstoneType))
   \<and> getBloomFilterOptionsFor (AnnouncementType_value TombstoneType) =
       Inl (InvalidAnnouncementTypeError (AnnouncementType_value TombstoneType))"
proof -
  have "\<exists>schema. getSchemaFor (DSNPType_value t) = Inr schema"
    by (cases t) (simp_all add: getSchemaFor_def)
  moreover have "\<exists>bloom. getBloomFilterOptionsFor (DSNPType_value t) = Inr bloom"
    by (cases t) (simp_all add: getBloomFilterOptionsFor_def)
  ultimately show ?thesis
    by (simp add: getSchemaFor_def getBloomFilterOptionsFor_def)
qed

lemma set_write_block_foldl:
  "set (foldl (\<lambda>bits v. sbbf_insert positions v bits) acc vs) =
     set acc \<union> (\<Union>v \<in> set vs. set (positions v))"
  by (induction vs arbitrary: acc) (auto simp: sbbf_insert_def)

lemma sbbf_check_inserted:
  assumes "row \<in> set rows" "row column = Some item"
  shows "sbbf_check positions (write_block positions column rows) item"
proof -
  have "item \<in> set (column_values column rows)"
    using assms by (induction rows) (auto simp: column_values_def split: option.splits)
  then show ?thesis
    by (auto simp: sbbf_check_def write_block_def set_write_block_foldl list_all_iff)
qed

text \<open>
  Claim C7. The probe answers true exactly when some bloom-filter block of the column
  answers true (a logical OR over the blocks). For a file written with bloom filters on
  the column, a value that occurs in the column in any row group makes the probe true:
  there is no false negative. For a value that does not occur the answer is whatever the
  bits say, true (a false positive) or false. A column that is not indexed has no
  blocks and is answered false.
\<close>

theorem includes_no_false_negative:
  "includes_item reader column item =
     (\<exists>data \<in> set (case getBloomFilters reader column of None \<Rightarrow> [] | Some blocks \<Rightarrow> blocks).
        check (sbbf data) item)
   \<and> (column \<in> set bloomFilters \<and> (\<exists>row \<in> set (concat groups). row column = Some item) \<longrightarrow>
      includes_item (written_file positions bloomFilters groups) column item)
   \<and> (column \<notin> set bloomFilters \<longrightarrow>
      \<not> includes_item (written_file positions bloomFilters groups) column item)"
proof (intro conjI impI)
  show "includes_item reader column item =
     (\<exists>data \<in> set (case getBloomFilters reader column of None \<Rightarrow> [] | Some blocks \<Rightarrow> blocks).
        check (sbbf data) item)"
    by (simp add: includes_item_def list_ex_iff)
next
  assume h: "column \<in> set bloomFilters \<and> (\<exists>row \<in> set (concat groups). row column = Some item)"
  then obtain rows row where row: "rows \<in> set groups" "row \<in> set rows" "row column = Some item"
    by auto
  from row(1) obtain g where g: "g < length groups" "groups ! g = rows"
    by (auto simp: in_set_conv_nth)
  then have "(g, rows) \<in> set (enumerate 0 groups)"
    by (auto simp: in_set_enumerate_eq)
  moreover have "sbbf_check positions (write_block positions column rows) item"
    using row(2,3) by (rule sbbf_check_inserted)
  ultimately show "includes_item (written_file positions bloomFilters groups) column item"
    using h by (force simp: includes_item_def written_file_def list_ex_iff)
next
  assume "column \<notin> set bloomFilters"
  then show "\<not> includes_item (written_file positions bloomFilters groups) column item"
    by (simp add: includes_item_def written_file_def)
qed

theorem includes_no_false_negative_witness:
  "includes_item (written_file sample_positions [''fromId''] sample_groups) ''fromId'' 2
   \<and> includes_item (written_file sample_positions [''fromId''] sample_groups) ''fromId'' 6
   \<and> \<not> includes_item (written_file sample_positions [''fromId''] sample_groups) ''fromId'' 9
   \<and> \<not> includes_item (written_file sample_positions [''signature''] sample_groups) ''fromId'' 2"
proof -
  have present: "\<exists>row \<in> set (concat sample_groups). row ''fromId'' = Some 2"
    by (simp add: sample_groups_def)
  have "includes_item (written_file sample_positions [''fromId''] sample_groups) ''fromId'' 2"
    using includes_no_false_negative
      [of "written_file sample_positions [] []" "''fromId''" 2 "[''fromId'']" sample_groups
        sample_positions,
        THEN conjunct2, THEN conjunct1] present
    by simp
  moreover have "\<not> includes_item (written_file sample_positions [''signature''] sample_groups) ''fromId'' 2"
    using includes_no_false_negative
      [of "written_file sample_positions [] []" "''fromId''" 2 "[''signature'']" sample_groups
        sample_positions,
        THEN conjunct2, THEN conjunct2]
    by simp
  moreover have "includes_item (written_file sample_positions [''fromId''] sample_groups) ''fromId'' 6
      \<and> \<not> includes_item (written_file sample_positions [''fromId''] sample_groups) ''fromId'' 9"
    by (simp add: includes_item_def written_file_def sample_groups_def sample_positions_def
        write_block_def column_values_def sbbf_check_def sbbf_insert_def enumerate_eq_zip)
  ultimately show ?thesis by simp
qed

end
